theory Spec2Isabelle
  imports Complex_Main
begin

section \<open>Python values\<close>

text \<open>
  Both adapters are Python scripts that read one JSON document, work on the values
  \<^verbatim>\<open>json.loads\<close> returns and print one JSON document. The values are modelled as
  Python has them.

  A \<^verbatim>\<open>str\<close> is the list of its code points. The literals of the source are ASCII
  and are written \<open>lit ''...''\<close>.
\<close>

type_synonym pystr = "nat list"

definition lit :: "string \<Rightarrow> pystr" where
  "lit cs = map of_char cs"

definition quoted :: "pystr \<Rightarrow> pystr" where
  \<comment> \<open>the text between two apostrophes (code point 39)\<close>
  "quoted s = 39 # s @ [39]"

text \<open>
  A \<^verbatim>\<open>float\<close> is a binary64 number: \<open>Finite r\<close> is the float whose exact value is
  \<open>r\<close> (positive zero for \<open>r = 0\<close>), \<open>NegZero\<close> is \<^verbatim>\<open>-0.0\<close>, and there are the
  two infinities and NaN (\<^verbatim>\<open>json.loads\<close> accepts \<^verbatim>\<open>NaN\<close>, \<^verbatim>\<open>Infinity\<close> and
  \<^verbatim>\<open>-Infinity\<close>). A float literal of the source and the result of an addition are
  the nearest binary64 number, ties going to the even mantissa: \<open>round64\<close>.
\<close>

datatype pyfloat = Finite real | NegZero | PosInf | NegInf | NaN

definition round_half_even :: "real \<Rightarrow> int" where
  "round_half_even y =
     (let f = \<lfloor>y\<rfloor> in
      if y - of_int f < 1 / 2 then f
      else if 1 / 2 < y - of_int f then f + 1
      else if even f then f else f + 1)"

definition round64 :: "real \<Rightarrow> pyfloat" where
  \<comment> \<open>The mantissa has 53 bits, so the last place of a number between \<open>2 ^ e\<close> and
      \<open>2 ^ (e + 1)\<close> is \<open>2 ^ (e - 52)\<close>, and never less than \<open>2 ^ -1074\<close>. A result of
      \<open>2 ^ 1024\<close> or more is an infinity.\<close>
  "round64 x =
     (if x = 0 then Finite 0
      else
        let p = max (\<lfloor>log 2 \<bar>x\<bar>\<rfloor> - 52) (- 1074);
            v = of_int (round_half_even (\<bar>x\<bar> / 2 powr of_int p)) * 2 powr of_int p
        in if 2 ^ 1024 \<le> v then (if 0 < x then PosInf else NegInf)
           else if v = 0 then (if 0 < x then Finite 0 else NegZero)
           else Finite (if 0 < x then v else - v))"

text \<open>
  The result of \<^verbatim>\<open>json.loads\<close>: \<^verbatim>\<open>None\<close>, \<^verbatim>\<open>bool\<close>, \<^verbatim>\<open>int\<close> (unbounded),
  \<^verbatim>\<open>float\<close>, \<^verbatim>\<open>str\<close>, \<^verbatim>\<open>list\<close> and \<^verbatim>\<open>dict\<close>. A dict is the list of its items in
  insertion order; \<^verbatim>\<open>json.loads\<close> keeps one item per key, and a lookup takes the first
  item with the key.
\<close>

datatype json =
    JNull
  | JBool bool
  | JInt int
  | JFloat pyfloat
  | JStr pystr
  | JList "json list"
  | JObj "(pystr \<times> json) list"

text \<open>
  An exception is its class, as far as an \<^verbatim>\<open>except\<close> clause of the source tells classes
  apart, and the text \<^verbatim>\<open>str(e)\<close> gives. \<open>RequestException\<close> stands for
  \<^verbatim>\<open>requests.exceptions.RequestException\<close> and its subclasses; every other class here
  is a subclass of \<^verbatim>\<open>Exception\<close> that is not a \<open>RequestException\<close>.
\<close>

datatype exc_class =
    RequestException
  | AttributeError
  | TypeError
  | IndexError
  | KeyError
  | UnicodeEncodeError
  | OverflowError
  | ValueError
  | Exception

datatype exception = Raised exc_class pystr

fun str_exc :: "exception \<Rightarrow> pystr" where
  "str_exc (Raised c m) = m"

fun exc_class_of :: "exception \<Rightarrow> exc_class" where
  "exc_class_of (Raised c m) = c"

fun type_name :: "json \<Rightarrow> pystr" where
  "type_name JNull = lit ''NoneType''"
| "type_name (JBool b) = lit ''bool''"
| "type_name (JInt i) = lit ''int''"
| "type_name (JFloat f) = lit ''float''"
| "type_name (JStr s) = lit ''str''"
| "type_name (JList xs) = lit ''list''"
| "type_name (JObj kvs) = lit ''dict''"

definition no_attribute :: "json \<Rightarrow> string \<Rightarrow> exception" where
  \<comment> \<open>the AttributeError of \<^verbatim>\<open>v.name\<close> on a value without that attribute\<close>
  "no_attribute v name =
     Raised AttributeError
       (quoted (type_name v) @ lit '' object has no attribute '' @ quoted (lit name))"

subsection \<open>Operations of the Python library the scripts call\<close>

definition get_or :: "(pystr \<times> json) list \<Rightarrow> pystr \<Rightarrow> json \<Rightarrow> json" where
  \<comment> \<open>what \<^verbatim>\<open>d.get(key, default)\<close> returns for the dict with the items \<open>kvs\<close>\<close>
  "get_or kvs key dflt = (case map_of kvs key of Some v \<Rightarrow> v | None \<Rightarrow> dflt)"

definition dict_get :: "json \<Rightarrow> pystr \<Rightarrow> json \<Rightarrow> exception + json" where
  \<comment> \<open>\<^verbatim>\<open>d.get(key, default)\<close>; of the values \<^verbatim>\<open>json.loads\<close> returns only a dict has the
      method\<close>
  "dict_get d key dflt =
     (case d of
        JObj kvs \<Rightarrow> Inr (get_or kvs key dflt)
      | _ \<Rightarrow> Inl (no_attribute d ''get''))"

definition isspace :: "nat \<Rightarrow> bool" where
  \<comment> \<open>the code points \<^verbatim>\<open>str.split()\<close> treats as whitespace\<close>
  "isspace c \<longleftrightarrow>
     (9 \<le> c \<and> c \<le> 13) \<or> (28 \<le> c \<and> c \<le> 32) \<or> c = 133 \<or> c = 160 \<or> c = 5760
     \<or> (8192 \<le> c \<and> c \<le> 8202) \<or> c = 8232 \<or> c = 8233 \<or> c = 8239 \<or> c = 8287
     \<or> c = 12288"

fun split_from :: "pystr \<Rightarrow> pystr \<Rightarrow> pystr list" where
  \<comment> \<open>\<open>split_from w s\<close>: the words of \<open>s\<close>, the first one continuing the word \<open>w\<close> read so far\<close>
  "split_from w [] = (if w = [] then [] else [w])"
| "split_from w (c # cs) =
     (if isspace c then (if w = [] then split_from [] cs else w # split_from [] cs)
      else split_from (w @ [c]) cs)"

definition str_split :: "pystr \<Rightarrow> pystr list" where
  \<comment> \<open>\<^verbatim>\<open>s.split()\<close>: the maximal runs of non-whitespace\<close>
  "str_split s = split_from [] s"

definition split :: "json \<Rightarrow> exception + pystr list" where
  \<comment> \<open>\<^verbatim>\<open>v.split()\<close>; of the values \<^verbatim>\<open>json.loads\<close> returns only a str has the method\<close>
  "split v = (case v of JStr s \<Rightarrow> Inr (str_split s) | _ \<Rightarrow> Inl (no_attribute v ''split''))"

definition int_lt :: "int \<Rightarrow> json \<Rightarrow> exception + bool" where
  \<comment> \<open>\<^verbatim>\<open>n < v\<close> for an int \<open>n\<close>; \<^verbatim>\<open>bool\<close> is a subclass of \<^verbatim>\<open>int\<close>, and an int
      and a float are compared by their exact values\<close>
  "int_lt n v =
     (case v of
        JInt i \<Rightarrow> Inr (n < i)
      | JBool b \<Rightarrow> Inr (n < (if b then 1 else 0))
      | JFloat (Finite r) \<Rightarrow> Inr (of_int n < r)
      | JFloat NegZero \<Rightarrow> Inr (n < 0)
      | JFloat PosInf \<Rightarrow> Inr True
      | JFloat NegInf \<Rightarrow> Inr False
      | JFloat NaN \<Rightarrow> Inr False
      | _ \<Rightarrow> Inl (Raised TypeError
                 (quoted (lit ''<'') @ lit '' not supported between instances of ''
                  @ quoted (lit ''int'') @ lit '' and '' @ quoted (type_name v))))"

definition min_with :: "json \<Rightarrow> int \<Rightarrow> exception + json" where
  \<comment> \<open>\<^verbatim>\<open>min(v, n)\<close>: the first argument unless the second is smaller\<close>
  "min_with v n =
     (case int_lt n v of Inl e \<Rightarrow> Inl e | Inr b \<Rightarrow> Inr (if b then JInt n else v))"

definition to_float :: "int \<Rightarrow> exception + real" where
  \<comment> \<open>the conversion of an int to a float, as an addition with a float does it first:
      the nearest float, or \<^verbatim>\<open>OverflowError\<close> when that is beyond the largest one\<close>
  "to_float n =
     (case round64 (of_int n) of
        Finite a \<Rightarrow> Inr a
      | NegZero \<Rightarrow> Inr 0
      | _ \<Rightarrow> Inl (Raised OverflowError (lit ''int too large to convert to float'')))"

definition float_add :: "real \<Rightarrow> pyfloat \<Rightarrow> pyfloat" where
  \<comment> \<open>\<open>a + f\<close> for the finite float of value \<open>a\<close>: the exact sum, rounded\<close>
  "float_add a f =
     (case f of
        Finite r \<Rightarrow> round64 (a + r)
      | NegZero \<Rightarrow> Finite a
      | PosInf \<Rightarrow> PosInf
      | NegInf \<Rightarrow> NegInf
      | NaN \<Rightarrow> NaN)"

definition int_add :: "int \<Rightarrow> json \<Rightarrow> exception + json" where
  \<comment> \<open>\<^verbatim>\<open>n + v\<close> for an int \<open>n\<close>; with a float the int is converted and the sum is a
      float\<close>
  "int_add n v =
     (case v of
        JInt i \<Rightarrow> Inr (JInt (n + i))
      | JBool b \<Rightarrow> Inr (JInt (n + (if b then 1 else 0)))
      | JFloat f \<Rightarrow>
          (case to_float n of Inl e \<Rightarrow> Inl e | Inr a \<Rightarrow> Inr (JFloat (float_add a f)))
      | _ \<Rightarrow> Inl (Raised TypeError
                 (lit ''unsupported operand type(s) for +: '' @ quoted (lit ''int'')
                  @ lit '' and '' @ quoted (type_name v))))"

definition getitem0 :: "json \<Rightarrow> exception + json" where
  \<comment> \<open>\<^verbatim>\<open>v[0]\<close>. The keys of a dict from \<^verbatim>\<open>json.loads\<close> are strs, so the key 0 is never
      there, and \<^verbatim>\<open>str(KeyError(0))\<close> is \<^verbatim>\<open>0\<close>.\<close>
  "getitem0 v =
     (case v of
        JList [] \<Rightarrow> Inl (Raised IndexError (lit ''list index out of range''))
      | JList (x # xs) \<Rightarrow> Inr x
      | JStr [] \<Rightarrow> Inl (Raised IndexError (lit ''string index out of range''))
      | JStr (c # cs) \<Rightarrow> Inr (JStr [c])
      | JObj kvs \<Rightarrow> Inl (Raised KeyError (lit ''0''))
      | _ \<Rightarrow> Inl (Raised TypeError (quoted (type_name v) @ lit '' object is not subscriptable'')))"

subsection \<open>URL quoting\<close>

text \<open>
  \<^verbatim>\<open>requests.utils.quote\<close> is \<^verbatim>\<open>urllib.parse.quote\<close>: a str is encoded to UTF-8
  (strictly: a surrogate code point raises), and every byte that is not a letter, a digit
  or one of \<^verbatim>\<open>_.-~/\<close> becomes \<^verbatim>\<open>%XX\<close>.
\<close>

function str_nat :: "nat \<Rightarrow> pystr" where
  \<comment> \<open>the decimal digits of a number\<close>
  "str_nat n = (if n < 10 then [48 + n] else str_nat (n div 10) @ [48 + n mod 10])"
  by pat_completeness auto
termination
  by (relation "measure id") auto

definition hex_lower :: "nat \<Rightarrow> nat" where
  "hex_lower d = (if d < 10 then 48 + d else 87 + d)"

definition hex_upper :: "nat \<Rightarrow> nat" where
  "hex_upper d = (if d < 10 then 48 + d else 55 + d)"

definition is_surrogate :: "nat \<Rightarrow> bool" where
  "is_surrogate c \<longleftrightarrow> 55296 \<le> c \<and> c \<le> 57343"

definition utf8_char :: "nat \<Rightarrow> nat list" where
  "utf8_char c =
     (if c < 128 then [c]
      else if c < 2048 then [192 + c div 64, 128 + c mod 64]
      else if c < 65536 then [224 + c div 4096, 128 + c div 64 mod 64, 128 + c mod 64]
      else [240 + c div 262144, 128 + c div 4096 mod 64, 128 + c div 64 mod 64, 128 + c mod 64])"

definition encode_utf8 :: "pystr \<Rightarrow> exception + nat list" where
  \<comment> \<open>\<^verbatim>\<open>s.encode('utf-8', 'strict')\<close>; the error names the first run of surrogates\<close>
  "encode_utf8 s =
     (let start = length (takeWhile (\<lambda>c. \<not> is_surrogate c) s) in
      if start = length s then Inr (concat (map utf8_char s))
      else
        let stop = start + length (takeWhile is_surrogate (drop start s)) in
        Inl (Raised UnicodeEncodeError
          (if stop = start + 1 then
             quoted (lit ''utf-8'') @ lit '' codec can'' @ [39] @ lit ''t encode character ''
             @ quoted ([92, 117] @ map hex_lower
                 [s ! start div 4096 mod 16, s ! start div 256 mod 16,
                  s ! start div 16 mod 16, s ! start mod 16])
             @ lit '' in position '' @ str_nat start @ lit '': surrogates not allowed''
           else
             quoted (lit ''utf-8'') @ lit '' codec can'' @ [39] @ lit ''t encode characters in position ''
             @ str_nat start @ lit ''-'' @ str_nat (stop - 1)
             @ lit '': surrogates not allowed'')))"

definition always_safe :: "nat \<Rightarrow> bool" where
  \<comment> \<open>letters, digits, \<^verbatim>\<open>_.-~\<close> and the default safe character \<^verbatim>\<open>/\<close>\<close>
  "always_safe b \<longleftrightarrow>
     (65 \<le> b \<and> b \<le> 90) \<or> (97 \<le> b \<and> b \<le> 122) \<or> (48 \<le> b \<and> b \<le> 57)
     \<or> b = 95 \<or> b = 46 \<or> b = 45 \<or> b = 126 \<or> b = 47"

definition quote_byte :: "nat \<Rightarrow> pystr" where
  "quote_byte b = (if always_safe b then [b] else [37, hex_upper (b div 16), hex_upper (b mod 16)])"

definition quote :: "json \<Rightarrow> exception + pystr" where
  \<comment> \<open>\<^verbatim>\<open>quote(v)\<close>; a value that is neither str nor bytes reaches \<^verbatim>\<open>quote_from_bytes\<close>,
      which raises\<close>
  "quote v =
     (case v of
        JStr s \<Rightarrow>
          (if s = [] then Inr []
           else (case encode_utf8 s of Inl e \<Rightarrow> Inl e
                 | Inr bs \<Rightarrow> Inr (concat (map quote_byte bs))))
      | _ \<Rightarrow> Inl (Raised TypeError (lit ''quote_from_bytes() expected bytes'')))"

section \<open>The process boundary\<close>

text \<open>
  One run of a script reads standard input, may call the provider, prints one JSON
  document and ends with an exit code. \<open>stdout\<close> is the dict handed to
  \<^verbatim>\<open>print(json.dumps(...))\<close>, \<open>calls\<close> the HTTP requests made, in order.
  The standard input is given by what \<^verbatim>\<open>json.loads(sys.stdin.read())\<close> does with it:
  it raises (\<open>Inl\<close>) or returns a value (\<open>Inr\<close>).

  Every exception here is an \<^verbatim>\<open>Exception\<close>, which the \<^verbatim>\<open>except\<close> clause of
  \<^verbatim>\<open>main\<close> catches; an interrupt of the process from outside is not part of a run.

  The statement \<^verbatim>\<open>print(json.dumps(result))\<close> is inside the \<^verbatim>\<open>try\<close>, and
  \<^verbatim>\<open>json.dumps\<close> can raise: \<^verbatim>\<open>ValueError\<close> for an int with more digits than the
  interpreter converts to text (4300 unless set otherwise), \<^verbatim>\<open>RecursionError\<close> for a
  value nested deeper than the interpreter's stack allows. What it does depends on the
  interpreter, so it is given like the input and the network: \<open>dumps d\<close> is the
  exception \<^verbatim>\<open>json.dumps(d)\<close> raises, if any. It raises before anything is written, so
  the document of a run is the one of the \<^verbatim>\<open>except\<close> clause then. That one is a flat
  dict of a bool and two strs, which \<^verbatim>\<open>json.dumps\<close> always takes; writing the text
  to the standard output succeeds.
\<close>

type_synonym dumps = "json \<Rightarrow> exception option"

datatype http_request =
    POST pystr "(pystr \<times> pystr) list" json nat
  | HEAD pystr nat

text \<open>
  The provider is outside the scripts. A call of \<^verbatim>\<open>requests.post\<close> or
  \<^verbatim>\<open>requests.head\<close> raises (connection failure, timeout, a body that cannot be sent) or
  returns a response; of a response the scripts use \<^verbatim>\<open>raise_for_status()\<close>, which
  returns or raises an \<^verbatim>\<open>HTTPError\<close> (a \<open>RequestException\<close>) for a 4xx or 5xx status,
  and \<^verbatim>\<open>json()\<close>, which returns the decoded body or raises. The network is a function
  from the request to what the call does.
\<close>

record response =
  raise_for_status :: "pystr option"
  json_body :: "exception + json"

type_synonym network = "http_request \<Rightarrow> exception + response"

record outcome =
  stdout :: json
  exit_code :: nat
  calls :: "http_request list"

section \<open>scripts/example\_community.py\<close>

definition call_community_api :: "json \<Rightarrow> json \<Rightarrow> json \<Rightarrow> exception + json" where
  \<comment> \<open>The dict is built key by key: the f-string, which formats any value without
      raising; then \<^verbatim>\<open>len(prompt.split())\<close>, which raises for every prompt that is not
      a str, so that the text is kept for a str only; then \<^verbatim>\<open>min(max_tokens, 20)\<close>; then
      the sum. Every exception of the body is raised again as \<^verbatim>\<open>Exception\<close> with the
      prefixed message.\<close>
  "call_community_api prompt model max_tokens =
     (case
        (case split prompt of Inl e \<Rightarrow> Inl e | Inr ws \<Rightarrow>
         (case min_with max_tokens 20 of Inl e \<Rightarrow> Inl e | Inr completion \<Rightarrow>
          (case int_add (int (length ws)) completion of Inl e \<Rightarrow> Inl e | Inr total_tokens \<Rightarrow>
            Inr (JObj
              [(lit ''text'',
                  JStr (lit ''Community API response to: ''
                        @ (case prompt of JStr p \<Rightarrow> p | _ \<Rightarrow> []))),
               (lit ''model'', model),
               (lit ''usage'', JObj
                  [(lit ''prompt_tokens'', JInt (int (length ws))),
                   (lit ''completion_tokens'', completion),
                   (lit ''total_tokens'', total_tokens)])]))))
      of
        Inl e \<Rightarrow> Inl (Raised Exception (lit ''Community API request failed: '' @ str_exc e))
      | Inr response \<Rightarrow> Inr response)"

definition print_json :: "dumps \<Rightarrow> json \<Rightarrow> exception + json" where
  \<comment> \<open>\<^verbatim>\<open>print(json.dumps(result))\<close>: the document printed, or the exception of
      \<^verbatim>\<open>json.dumps\<close>\<close>
  "print_json dumps result = (case dumps result of Some e \<Rightarrow> Inl e | None \<Rightarrow> Inr result)"

definition example_community_try :: "dumps \<Rightarrow> exception + json \<Rightarrow> exception + json" where
  \<comment> \<open>the body of the \<^verbatim>\<open>try\<close> of \<^verbatim>\<open>main\<close>: the document it prints, or the exception
      that ends it\<close>
  "example_community_try dumps stdin =
     (case stdin of Inl e \<Rightarrow> Inl e | Inr request_data \<Rightarrow>
      (case dict_get request_data (lit ''prompt'') (JStr []) of Inl e \<Rightarrow> Inl e | Inr prompt \<Rightarrow>
       (case dict_get request_data (lit ''model'') (JStr (lit ''default'')) of Inl e \<Rightarrow> Inl e | Inr model \<Rightarrow>
        (case dict_get request_data (lit ''max_tokens'') (JInt 100) of Inl e \<Rightarrow> Inl e | Inr max_tokens \<Rightarrow>
         (case call_community_api prompt model max_tokens of Inl e \<Rightarrow> Inl e | Inr response \<Rightarrow>
           print_json dumps (JObj
             [(lit ''success'', JBool True),
              (lit ''data'', response),
              (lit ''cost'', JFloat (round64 0.001)),
              (lit ''provider'', JStr (lit ''example_community''))]))))))"

definition example_community_main :: "dumps \<Rightarrow> exception + json \<Rightarrow> outcome" where
  \<comment> \<open>\<^verbatim>\<open>main\<close>: print the result and return (exit code 0), or print the error dict and
      \<^verbatim>\<open>sys.exit(1)\<close>\<close>
  "example_community_main dumps stdin =
     (case example_community_try dumps stdin of
        Inr result \<Rightarrow> \<lparr>stdout = result, exit_code = 0, calls = []\<rparr>
      | Inl e \<Rightarrow>
          \<lparr>stdout = JObj
             [(lit ''success'', JBool False),
              (lit ''error'', JStr (str_exc e)),
              (lit ''provider'', JStr (lit ''example_community''))],
           exit_code = 1, calls = []\<rparr>)"

section \<open>scripts/pollinations.py\<close>

definition reraise_request_exception :: "string \<Rightarrow> exception + 'a \<Rightarrow> exception + 'a" where
  \<comment> \<open>\<^verbatim>\<open>except requests.exceptions.RequestException as e: raise Exception(f'... failed: {e}')\<close>;
      an exception of another class passes through\<close>
  "reraise_request_exception prefix r =
     (case r of
        Inl e \<Rightarrow>
          (if exc_class_of e = RequestException
           then Inl (Raised Exception (lit prefix @ str_exc e)) else Inl e)
      | Inr v \<Rightarrow> Inr v)"

definition text_request :: "json \<Rightarrow> json \<Rightarrow> json \<Rightarrow> http_request" where
  \<comment> \<open>the arguments of \<^verbatim>\<open>requests.post\<close> in \<^verbatim>\<open>complete_text\<close>\<close>
  "text_request prompt model max_tokens =
     POST (lit ''https://text.pollinations.ai/openai'')
       [(lit ''Content-Type'', lit ''application/json''),
        (lit ''User-Agent'', lit ''Intelligent-AI-Gateway/1.0'')]
       (JObj
         [(lit ''messages'',
             JList [JObj [(lit ''role'', JStr (lit ''user'')), (lit ''content'', prompt)]]),
          (lit ''model'', model),
          (lit ''max_tokens'', max_tokens),
          (lit ''stream'', JBool False)])
       30"

definition complete_text ::
  "network \<Rightarrow> json \<Rightarrow> json \<Rightarrow> json \<Rightarrow> (exception + json) \<times> http_request list" where
  \<comment> \<open>The dict that is the default of \<^verbatim>\<open>data.get('usage', ...)\<close> is built before the
      call of \<^verbatim>\<open>get\<close>, whether the response has the key or not.\<close>
  "complete_text net prompt model max_tokens =
     (reraise_request_exception ''Pollinations text API request failed: ''
        (case net (text_request prompt model max_tokens) of Inl e \<Rightarrow> Inl e | Inr response \<Rightarrow>
         (case raise_for_status response of Some m \<Rightarrow> Inl (Raised RequestException m) | None \<Rightarrow>
          (case json_body response of Inl e \<Rightarrow> Inl e | Inr data \<Rightarrow>
           (case dict_get data (lit ''choices'') (JList [JObj []]) of Inl e \<Rightarrow> Inl e | Inr choices \<Rightarrow>
            (case getitem0 choices of Inl e \<Rightarrow> Inl e | Inr choice \<Rightarrow>
             (case dict_get choice (lit ''message'') (JObj []) of Inl e \<Rightarrow> Inl e | Inr message \<Rightarrow>
              (case dict_get message (lit ''content'') (JStr []) of Inl e \<Rightarrow> Inl e | Inr content \<Rightarrow>
               (case split prompt of Inl e \<Rightarrow> Inl e | Inr ws \<Rightarrow>
                (case int_add (int (length ws)) max_tokens of Inl e \<Rightarrow> Inl e | Inr total_tokens \<Rightarrow>
                 (case dict_get data (lit ''usage'')
                         (JObj
                           [(lit ''prompt_tokens'', JInt (int (length ws))),
                            (lit ''completion_tokens'', max_tokens),
                            (lit ''total_tokens'', total_tokens)])
                  of Inl e \<Rightarrow> Inl e | Inr usage \<Rightarrow>
                    Inr (JObj
                      [(lit ''text'', content),
                       (lit ''model'', model),
                       (lit ''usage'', usage)]))))))))))),
      [text_request prompt model max_tokens])"

definition generate_image ::
  "network \<Rightarrow> json \<Rightarrow> json \<Rightarrow> (exception + json) \<times> http_request list" where
  \<comment> \<open>\<^verbatim>\<open>image_url\<close> is built before the \<^verbatim>\<open>try\<close>: an exception of \<^verbatim>\<open>quote\<close> is not
      wrapped and no request is made\<close>
  "generate_image net prompt model =
     (case quote prompt of
        Inl e \<Rightarrow> (Inl e, [])
      | Inr quoted_prompt \<Rightarrow>
          (let image_url = lit ''https://image.pollinations.ai/prompt'' @ lit ''/'' @ quoted_prompt in
           (reraise_request_exception ''Pollinations image API request failed: ''
              (case net (HEAD image_url 10) of Inl e \<Rightarrow> Inl e | Inr response \<Rightarrow>
               (case raise_for_status response of Some m \<Rightarrow> Inl (Raised RequestException m) | None \<Rightarrow>
                 Inr (JObj
                   [(lit ''url'', JStr image_url),
                    (lit ''prompt'', prompt),
                    (lit ''model'', JStr (lit ''pollinations-image'')),
                    (lit ''size'', JStr (lit ''1024x1024''))]))),
            [HEAD image_url 10])))"

definition pollinations_try ::
  "dumps \<Rightarrow> network \<Rightarrow> exception + json \<Rightarrow> (exception + json) \<times> http_request list" where
  \<comment> \<open>the body of the \<^verbatim>\<open>try\<close> of \<^verbatim>\<open>main\<close>: the document it prints, or the exception
      that ends it, and the requests made\<close>
  "pollinations_try dumps net stdin =
     (case stdin of Inl e \<Rightarrow> (Inl e, []) | Inr request_data \<Rightarrow>
      (case dict_get request_data (lit ''prompt'') (JStr []) of Inl e \<Rightarrow> (Inl e, []) | Inr prompt \<Rightarrow>
       (case dict_get request_data (lit ''model'') (JStr (lit ''openai'')) of Inl e \<Rightarrow> (Inl e, []) | Inr model \<Rightarrow>
        (case dict_get request_data (lit ''max_tokens'') (JInt 100) of Inl e \<Rightarrow> (Inl e, []) | Inr max_tokens \<Rightarrow>
         (case dict_get request_data (lit ''task_type'') (JStr (lit ''chat_completion'')) of
            Inl e \<Rightarrow> (Inl e, [])
          | Inr task_type \<Rightarrow>
              (case (if task_type = JStr (lit ''image_generation'')
                     then generate_image net prompt model
                     else complete_text net prompt model max_tokens)
               of
                 (Inl e, reqs) \<Rightarrow> (Inl e, reqs)
               | (Inr response, reqs) \<Rightarrow>
                   (print_json dumps (JObj
                      [(lit ''success'', JBool True),
                       (lit ''data'', response),
                       (lit ''cost'', JFloat (round64 0.0)),
                       (lit ''provider'', JStr (lit ''pollinations''))]),
                    reqs)))))))"

definition pollinations_main :: "dumps \<Rightarrow> network \<Rightarrow> exception + json \<Rightarrow> outcome" where
  \<comment> \<open>\<^verbatim>\<open>main\<close>: print the result and return (exit code 0), or print the error dict and
      \<^verbatim>\<open>sys.exit(1)\<close>\<close>
  "pollinations_main dumps net stdin =
     (case pollinations_try dumps net stdin of
        (Inr result, reqs) \<Rightarrow> \<lparr>stdout = result, exit_code = 0, calls = reqs\<rparr>
      | (Inl e, reqs) \<Rightarrow>
          \<lparr>stdout = JObj
             [(lit ''success'', JBool False),
              (lit ''error'', JStr (str_exc e)),
              (lit ''provider'', JStr (lit ''pollinations''))],
           exit_code = 1, calls = reqs\<rparr>)"

section \<open>The result envelope of the specification\<close>

text \<open>
  The specification gives the printed document two shapes. \<open>Success\<close>:
  \<^verbatim>\<open>success=true\<close>, \<^verbatim>\<open>data\<close>, \<^verbatim>\<open>cost\<close>, \<^verbatim>\<open>provider\<close>. \<open>Failure\<close>: \<^verbatim>\<open>success=false\<close>,
  \<^verbatim>\<open>error\<close>, \<^verbatim>\<open>provider\<close>, and neither \<^verbatim>\<open>data\<close> nor \<^verbatim>\<open>cost\<close>.
\<close>

definition Success :: "json \<Rightarrow> real \<Rightarrow> string \<Rightarrow> json" where
  "Success payload cost provider =
     JObj [(lit ''success'', JBool True), (lit ''data'', payload),
           (lit ''cost'', JFloat (round64 cost)), (lit ''provider'', JStr (lit provider))]"

definition Failure :: "pystr \<Rightarrow> string \<Rightarrow> json" where
  "Failure message provider =
     JObj [(lit ''success'', JBool False), (lit ''error'', JStr message),
           (lit ''provider'', JStr (lit provider))]"

definition field :: "json \<Rightarrow> pystr \<Rightarrow> json option" where
  \<comment> \<open>the value of a key of an object; nothing for a missing key or a value that is no object\<close>
  "field v key = (case v of JObj kvs \<Rightarrow> map_of kvs key | _ \<Rightarrow> None)"

fun path :: "json \<Rightarrow> string list \<Rightarrow> json option" where
  \<comment> \<open>\<open>path v [''a'', ''b'']\<close> is the value at \<^verbatim>\<open>a.b\<close> in the document \<open>v\<close>\<close>
  "path v [] = Some v"
| "path v (key # keys) = (case field v (lit key) of None \<Rightarrow> None | Some w \<Rightarrow> path w keys)"

definition envelope_of :: "dumps \<Rightarrow> exception + json \<Rightarrow> real \<Rightarrow> string \<Rightarrow> json" where
  \<comment> \<open>the document for what an operation did: Failure with the text of the exception it
      raised; Success with the payload it returned, or, when \<^verbatim>\<open>json.dumps\<close> raises on
      that Success document, Failure with the text of that exception\<close>
  "envelope_of dumps r cost provider =
     (case r of
        Inl e \<Rightarrow> Failure (str_exc e) provider
      | Inr payload \<Rightarrow>
          (case dumps (Success payload cost provider) of
             Some e \<Rightarrow> Failure (str_exc e) provider
           | None \<Rightarrow> Success payload cost provider))"

definition outcome_of :: "dumps \<Rightarrow> exception + json \<Rightarrow> real \<Rightarrow> string \<Rightarrow> http_request list \<Rightarrow> outcome"
  where
  \<comment> \<open>the run for what an operation did: that document, exit code 0 with a Success
      document and 1 with a Failure document, and the requests made\<close>
  "outcome_of dumps r cost provider reqs =
     (case r of
        Inl e \<Rightarrow> \<lparr>stdout = Failure (str_exc e) provider, exit_code = 1, calls = reqs\<rparr>
      | Inr payload \<Rightarrow>
          (case dumps (Success payload cost provider) of
             Some e \<Rightarrow> \<lparr>stdout = Failure (str_exc e) provider, exit_code = 1, calls = reqs\<rparr>
           | None \<Rightarrow>
               \<lparr>stdout = Success payload cost provider, exit_code = 0, calls = reqs\<rparr>))"

definition keys :: "json \<Rightarrow> pystr list" where
  \<comment> \<open>the keys of an object, in order\<close>
  "keys v = (case v of JObj kvs \<Rightarrow> map fst kvs | _ \<Rightarrow> [])"

section \<open>An interpreter and two providers for examples\<close>

definition too_many_digits :: "int \<Rightarrow> bool" where
  \<comment> \<open>more than 4300 decimal digits, the sign not counted\<close>
  "too_many_digits i \<longleftrightarrow> 10 ^ 4300 \<le> \<bar>i\<bar>"

fun oversized :: "json \<Rightarrow> bool" where
  \<comment> \<open>some int of the document has too many digits\<close>
  "oversized (JInt i) = too_many_digits i"
| "oversized (JList xs) = list_ex oversized xs"
| "oversized (JObj kvs) = list_ex oversized (map snd kvs)"
| "oversized v = False"

definition nines :: int where
  \<comment> \<open>the int written with 4300 nines, the largest one \<^verbatim>\<open>json.loads\<close> of that
      interpreter returns\<close>
  "nines = 10 ^ 4300 - 1"

definition default_dumps :: dumps where
  \<comment> \<open>\<^verbatim>\<open>json.dumps\<close> of a CPython (3.11) with the default limit of 4300 digits, for
      documents whose nesting stays within its recursion limit\<close>
  "default_dumps d =
     (if oversized d
      then Some (Raised ValueError
        (lit (''Exceeds the limit (4300 digits) for integer string conversion; ''
              @ ''use sys.set_int_max_str_digits() to increase the limit'')))
      else None)"

definition responding :: "json \<Rightarrow> network" where
  \<comment> \<open>a provider that answers every request with a good status and the given JSON body\<close>
  "responding body request = Inr \<lparr>raise_for_status = None, json_body = Inr body\<rparr>"

definition timing_out :: network where
  \<comment> \<open>a provider that cannot be reached: every call raises a \<open>RequestException\<close>\<close>
  "timing_out request = Inl (Raised RequestException (lit ''timed out''))"
section \<open>Properties\<close>

subsection \<open>Literals and lookups\<close>

lemma lit_eq_iff [simp]: "lit a = lit b \<longleftrightarrow> a = b"
  by (simp add: lit_def inj_map_eq_map [OF inj_of_char])

lemma lit_Nil [simp]: "lit [] = []"
  by (simp add: lit_def)

lemma lit_append: "lit (a @ b) = lit a @ lit b"
  by (simp add: lit_def)

lemma responding_apply [simp]:
  "responding body request = Inr \<lparr>raise_for_status = None, json_body = Inr body\<rparr>"
  by (simp add: responding_def)

lemma timing_out_apply [simp]:
  "timing_out request = Inl (Raised RequestException (lit ''timed out''))"
  by (simp add: timing_out_def)

lemma get_or_Nil [simp]: "get_or [] key dflt = dflt"
  by (simp add: get_or_def)

lemma get_or_Cons [simp]:
  "get_or ((k, v) # kvs) key dflt = (if key = k then v else get_or kvs key dflt)"
  by (simp add: get_or_def)

lemma get_or_missing: "map_of kvs key = None \<Longrightarrow> get_or kvs key dflt = dflt"
  by (simp add: get_or_def)


lemma dict_get_JObj [simp]: "dict_get (JObj kvs) key dflt = Inr (get_or kvs key dflt)"
  by (simp add: dict_get_def)

lemma dict_get_not_dict:
  "\<forall>kvs. d \<noteq> JObj kvs \<Longrightarrow> dict_get d key dflt = Inl (no_attribute d ''get'')"
  by (cases d) (simp_all add: dict_get_def)

lemma field_JObj [simp]: "field (JObj kvs) key = map_of kvs key"
  by (simp add: field_def)

subsection \<open>The interpreter of the examples\<close>

lemma few_digits [simp]: "\<bar>i\<bar> < 1000 \<Longrightarrow> \<not> too_many_digits i"
proof -
  assume small: "\<bar>i\<bar> < 1000"
  have "(10::int) ^ 3 \<le> 10 ^ 4300"
    by (rule power_increasing) simp_all
  moreover have "(10::int) ^ 3 = 1000"
    by simp
  ultimately have "(1000::int) \<le> 10 ^ 4300"
    by (simp only:)
  with small have "\<bar>i\<bar> < 10 ^ 4300"
    by (rule less_le_trans)
  then show ?thesis
    unfolding too_many_digits_def not_le .
qed

lemma default_dumps_Success [simp]:
  "default_dumps (Success payload cost provider) =
     (if oversized payload
      then Some (Raised ValueError
        (lit (''Exceeds the limit (4300 digits) for integer string conversion; ''
              @ ''use sys.set_int_max_str_digits() to increase the limit'')))
      else None)"
  by (simp add: default_dumps_def Success_def)

subsection \<open>The steps of the two scripts\<close>

lemma outcome_of_raised [simp]:
  "outcome_of dumps (Inl e) cost provider reqs =
     \<lparr>stdout = Failure (str_exc e) provider, exit_code = 1, calls = reqs\<rparr>"
  by (simp add: outcome_of_def)

lemma outcome_of_returned:
  "outcome_of dumps (Inr d) cost provider reqs =
     (case dumps (Success d cost provider) of
        Some e \<Rightarrow> \<lparr>stdout = Failure (str_exc e) provider, exit_code = 1, calls = reqs\<rparr>
      | None \<Rightarrow> \<lparr>stdout = Success d cost provider, exit_code = 0, calls = reqs\<rparr>)"
  by (simp add: outcome_of_def)

lemma outcome_of_fields:
  "stdout (outcome_of dumps r cost provider reqs) = envelope_of dumps r cost provider"
  "calls (outcome_of dumps r cost provider reqs) = reqs"
  by (simp_all add: outcome_of_def envelope_of_def split: sum.splits option.splits)

lemma example_community_main_raised:
  "example_community_main dumps (Inl e) =
     \<lparr>stdout = Failure (str_exc e) ''example_community'', exit_code = 1, calls = []\<rparr>"
  by (simp add: example_community_main_def example_community_try_def Failure_def)

lemma example_community_main_not_dict:
  "\<forall>kvs. v \<noteq> JObj kvs \<Longrightarrow>
   example_community_main dumps (Inr v) =
     \<lparr>stdout = Failure (str_exc (no_attribute v ''get'')) ''example_community'',
      exit_code = 1, calls = []\<rparr>"
  by (simp add: example_community_main_def example_community_try_def Failure_def
      dict_get_not_dict)

lemma example_community_main_dict:
  "example_community_main dumps (Inr (JObj kvs)) =
     outcome_of dumps
       (call_community_api (get_or kvs (lit ''prompt'') (JStr []))
          (get_or kvs (lit ''model'') (JStr (lit ''default'')))
          (get_or kvs (lit ''max_tokens'') (JInt 100)))
       0.001 ''example_community'' []"
  by (simp add: example_community_main_def example_community_try_def print_json_def
      outcome_of_def Failure_def Success_def split: sum.splits option.splits)

lemma pollinations_main_raised:
  "pollinations_main dumps net (Inl e) =
     \<lparr>stdout = Failure (str_exc e) ''pollinations'', exit_code = 1, calls = []\<rparr>"
  by (simp add: pollinations_main_def pollinations_try_def Failure_def)

lemma pollinations_main_not_dict:
  "\<forall>kvs. v \<noteq> JObj kvs \<Longrightarrow>
   pollinations_main dumps net (Inr v) =
     \<lparr>stdout = Failure (str_exc (no_attribute v ''get'')) ''pollinations'',
      exit_code = 1, calls = []\<rparr>"
  by (simp add: pollinations_main_def pollinations_try_def Failure_def dict_get_not_dict)

lemma pollinations_main_image:
  "get_or kvs (lit ''task_type'') (JStr (lit ''chat_completion'')) = JStr (lit ''image_generation'')
   \<Longrightarrow> pollinations_main dumps net (Inr (JObj kvs)) =
     outcome_of dumps
       (fst (generate_image net (get_or kvs (lit ''prompt'') (JStr []))
               (get_or kvs (lit ''model'') (JStr (lit ''openai'')))))
       0 ''pollinations''
       (snd (generate_image net (get_or kvs (lit ''prompt'') (JStr []))
               (get_or kvs (lit ''model'') (JStr (lit ''openai'')))))"
  by (cases "generate_image net (get_or kvs (lit ''prompt'') (JStr []))
               (get_or kvs (lit ''model'') (JStr (lit ''openai'')))")
    (simp add: pollinations_main_def pollinations_try_def print_json_def outcome_of_def
      Failure_def Success_def split: sum.splits option.splits)

lemma pollinations_main_text:
  "get_or kvs (lit ''task_type'') (JStr (lit ''chat_completion'')) \<noteq> JStr (lit ''image_generation'')
   \<Longrightarrow> pollinations_main dumps net (Inr (JObj kvs)) =
     outcome_of dumps
       (fst (complete_text net (get_or kvs (lit ''prompt'') (JStr []))
               (get_or kvs (lit ''model'') (JStr (lit ''openai'')))
               (get_or kvs (lit ''max_tokens'') (JInt 100))))
       0 ''pollinations''
       (snd (complete_text net (get_or kvs (lit ''prompt'') (JStr []))
               (get_or kvs (lit ''model'') (JStr (lit ''openai'')))
               (get_or kvs (lit ''max_tokens'') (JInt 100))))"
  by (cases "complete_text net (get_or kvs (lit ''prompt'') (JStr []))
               (get_or kvs (lit ''model'') (JStr (lit ''openai'')))
               (get_or kvs (lit ''max_tokens'') (JInt 100))")
    (simp add: pollinations_main_def pollinations_try_def print_json_def outcome_of_def
      Failure_def Success_def split: sum.splits option.splits)

lemma pollinations_main_dict:
  "pollinations_main dumps net (Inr (JObj kvs)) =
     (case (if get_or kvs (lit ''task_type'') (JStr (lit ''chat_completion''))
               = JStr (lit ''image_generation'')
            then generate_image net (get_or kvs (lit ''prompt'') (JStr []))
                   (get_or kvs (lit ''model'') (JStr (lit ''openai'')))
            else complete_text net (get_or kvs (lit ''prompt'') (JStr []))
                   (get_or kvs (lit ''model'') (JStr (lit ''openai'')))
                   (get_or kvs (lit ''max_tokens'') (JInt 100))) of
        (r, reqs) \<Rightarrow> outcome_of dumps r 0 ''pollinations'' reqs)"
  by (simp add: pollinations_main_image pollinations_main_text split: prod.splits)

lemma outcome_of_exit0:
  "exit_code (outcome_of dumps r cost provider reqs) = 0 \<Longrightarrow>
   \<exists>d. r = Inr d \<and> dumps (Success d cost provider) = None
     \<and> stdout (outcome_of dumps r cost provider reqs) = Success d cost provider"
  by (simp add: outcome_of_def split: sum.splits option.splits)

lemma path_Success_data [simp]:
  "path (Success d cost provider) (''data'' # ks) = path d ks"
  by (simp add: Success_def)

lemma field_Success_data [simp]: "field (Success d cost provider) (lit ''data'') = Some d"
  by (simp add: Success_def)

lemma many_digits [simp]: "0 < k \<Longrightarrow> too_many_digits (k + nines)"
proof -
  assume "0 < k"
  moreover have "(0::int) \<le> 10 ^ 4300"
    by (rule zero_le_power) simp
  ultimately have "(10::int) ^ 4300 \<le> \<bar>k + (10 ^ 4300 - 1)\<bar>"
    by linarith
  then show ?thesis
    unfolding too_many_digits_def nines_def .
qed

lemma nines_digits [simp]: "\<not> too_many_digits nines"
proof -
  have "(0::int) < 10 ^ 4300"
    by (rule zero_less_power) simp
  then have "\<bar>(10::int) ^ 4300 - 1\<bar> < 10 ^ 4300"
    by linarith
  then show ?thesis
    unfolding too_many_digits_def nines_def not_le .
qed

subsection \<open>The library model: floats\<close>

lemma floor_log2:
  assumes "2 powr of_int k \<le> x" and "x < 2 powr of_int (k + 1)"
  shows "\<lfloor>log 2 x\<rfloor> = k"
proof -
  have "0 < (2::real) powr of_int k"
    by simp
  with assms(1) have pos: "0 < x"
    by linarith
  have "of_int k \<le> log 2 x"
    using assms(1) pos by (simp add: le_log_iff)
  moreover have "log 2 x < of_int (k + 1)"
    using assms(2) pos by (simp add: log_less_iff)
  ultimately show ?thesis
    by (simp add: floor_eq_iff)
qed

lemma round64_zero: "round64 0 = Finite 0"
  by (simp add: round64_def)

lemma round64_finite:
  assumes "x \<noteq> 0"
    and "2 powr of_int e \<le> \<bar>x\<bar>" and "\<bar>x\<bar> < 2 powr of_int (e + 1)"
    and "p = max (e - 52) (- 1074)"
    and "round_half_even (\<bar>x\<bar> / 2 powr of_int p) = m"
    and "v = of_int m * 2 powr of_int p"
    and "v < 2 ^ 1024" and "v \<noteq> 0"
  shows "round64 x = Finite (if 0 < x then v else - v)"
proof -
  have e: "\<lfloor>log 2 \<bar>x\<bar>\<rfloor> = e"
    using assms(2,3) by (rule floor_log2)
  show ?thesis
    unfolding round64_def Let_def e assms(4) [symmetric] assms(5) assms(6) [symmetric]
    using assms(1,7,8) by simp
qed

lemma round64_one: "round64 1 = Finite 1"
proof -
  have "round64 1 = Finite (if 0 < (1::real) then 1 else - 1)"
  proof (rule round64_finite [where e = 0 and p = "- 52" and m = "2 ^ 52"])
    show "round_half_even (\<bar>1\<bar> / 2 powr real_of_int (- 52)) = 2 ^ 52"
      by (simp add: round_half_even_def powr_minus_divide)
    show "(1::real) = real_of_int (2 ^ 52) * 2 powr real_of_int (- 52)"
      by (simp add: powr_minus_divide)
  qed simp_all
  then show ?thesis by simp
qed

lemma round64_thousandth: "round64 0.001 = Finite (1152921504606847 / 2 ^ 60)"
proof -
  have "round64 0.001 =
      Finite (if 0 < (0.001::real) then 1152921504606847 / 2 ^ 60 else - (1152921504606847 / 2 ^ 60))"
  proof (rule round64_finite [where e = "- 10" and p = "- 62" and m = 4611686018427388])
    show "2 powr real_of_int (- 10) \<le> \<bar>0.001 :: real\<bar>"
      by (simp add: powr_minus_divide)
    show "\<bar>0.001 :: real\<bar> < 2 powr real_of_int (- 10 + 1)"
      by (simp add: powr_minus_divide)
    show "round_half_even (\<bar>0.001\<bar> / 2 powr real_of_int (- 62)) = 4611686018427388"
      by (simp add: round_half_even_def powr_minus_divide Let_def floor_eq_iff)
    show "(1152921504606847 / 2 ^ 60 :: real)
        = real_of_int 4611686018427388 * 2 powr real_of_int (- 62)"
      by (simp add: powr_minus_divide)
  qed simp_all
  then show ?thesis by simp
qed

text \<open>The sum \<^verbatim>\<open>1 + -1e16\<close> is not a float; Python gives \<^verbatim>\<open>-1e16\<close>.\<close>

lemma round64_tie: "round64 (- 9999999999999999) = Finite (- 10000000000000000)"
proof -
  have "round64 (- 9999999999999999) =
      Finite (if 0 < (- 9999999999999999 :: real) then 10000000000000000 else - 10000000000000000)"
  proof (rule round64_finite [where e = 53 and p = 1 and m = 5000000000000000])
    show "round_half_even (\<bar>- 9999999999999999\<bar> / 2 powr real_of_int 1) = 5000000000000000"
      by (simp add: round_half_even_def Let_def floor_eq_iff)
  qed simp_all
  then show ?thesis by simp
qed

lemma int_add_rounds:
  "int_add 1 (JFloat (Finite (- 10000000000000000))) = Inr (JFloat (Finite (- 10000000000000000)))"
  using round64_tie by (simp add: int_add_def to_float_def float_add_def round64_one)

lemma int_add_int [simp]: "int_add n (JInt i) = Inr (JInt (n + i))"
  by (simp add: int_add_def)

lemma min_with_int [simp]: "min_with (JInt m) n = Inr (JInt (min m n))"
  by (simp add: min_with_def int_lt_def min_def)

subsection \<open>The library model: splitting and quoting\<close>

lemma split_from_no_space:
  "\<forall>c \<in> set s. \<not> isspace c \<Longrightarrow> split_from w s = (if w @ s = [] then [] else [w @ s])"
  by (induction s arbitrary: w) auto

lemma str_split_hello_world:
  "str_split (lit ''hello world'') = [lit ''hello'', lit ''world'']"
  by (simp add: str_split_def lit_def isspace_def)

lemma split_from_words:
  assumes "\<forall>c \<in> set w. \<not> isspace c"
  shows "\<forall>v \<in> set (split_from w s). v \<noteq> [] \<and> (\<forall>c \<in> set v. \<not> isspace c)"
  using assms
proof (induction s arbitrary: w)
  case Nil
  then show ?case by simp
next
  case (Cons c cs)
  show ?case
  proof (cases "isspace c")
    case True
    with Cons.prems Cons.IH [of "[]"] show ?thesis by auto
  next
    case False
    with Cons.prems Cons.IH [of "w @ [c]"] show ?thesis by auto
  qed
qed

lemma split_from_concat:
  "concat (split_from w s) = w @ filter (\<lambda>c. \<not> isspace c) s"
  by (induction s arbitrary: w) auto

lemma str_split_words:
  "v \<in> set (str_split s) \<Longrightarrow> v \<noteq> [] \<and> (\<forall>c \<in> set v. \<not> isspace c)"
  using split_from_words [of "[]" s] by (simp add: str_split_def)

lemma str_split_concat: "concat (str_split s) = filter (\<lambda>c. \<not> isspace c) s"
  by (simp add: str_split_def split_from_concat)

lemma str_split_no_space:
  "\<forall>c \<in> set s. \<not> isspace c \<Longrightarrow> str_split s = (if s = [] then [] else [s])"
  by (simp add: str_split_def split_from_no_space)

lemma quote_byte_chars: "\<forall>c \<in> set (quote_byte b). always_safe c \<or> c = 37"
  if "b < 256"
proof -
  have "b div 16 < 16" and "b mod 16 < 16"
    using that by simp_all
  then have "always_safe (hex_upper (b div 16))" and "always_safe (hex_upper (b mod 16))"
    by (auto simp: hex_upper_def always_safe_def)
  then show ?thesis
    by (simp add: quote_byte_def)
qed

lemma utf8_char_bytes: "c < 1114112 \<Longrightarrow> \<forall>b \<in> set (utf8_char c). b < 256"
  by (auto simp: utf8_char_def)

lemma quote_chars:
  assumes "quote (JStr s) = Inr q" and "\<forall>c \<in> set s. c < 1114112"
  shows "\<forall>c \<in> set q. always_safe c \<or> c = 37"
proof (cases "s = []")
  case True
  with assms show ?thesis by (simp add: quote_def)
next
  case False
  with assms obtain bs where bs: "encode_utf8 s = Inr bs" and q: "q = concat (map quote_byte bs)"
    by (auto simp: quote_def split: sum.splits)
  from bs have "bs = concat (map utf8_char s)"
    by (auto simp: encode_utf8_def Let_def split: if_splits)
  with assms(2) have "\<forall>b \<in> set bs. b < 256"
    using utf8_char_bytes by auto
  with q show ?thesis
    using quote_byte_chars by auto
qed

lemma quote_unreserved:
  "s \<noteq> [] \<Longrightarrow> \<forall>c \<in> set s. always_safe c \<Longrightarrow> quote (JStr s) = Inr s"
proof -
  assume nonempty: "s \<noteq> []" and safe: "\<forall>c \<in> set s. always_safe c"
  then have ascii: "\<forall>c \<in> set s. c < 128"
    by (auto simp: always_safe_def)
  then have "\<forall>c \<in> set s. \<not> is_surrogate c"
    by (auto simp: is_surrogate_def)
  then have "length (takeWhile (\<lambda>c. \<not> is_surrogate c) s) = length s"
    by (simp add: takeWhile_eq_all_conv [THEN iffD2])
  moreover from ascii have "concat (map utf8_char s) = s"
    by (induction s) (simp_all add: utf8_char_def)
  moreover from safe have "concat (map quote_byte s) = s"
    by (induction s) (simp_all add: quote_byte_def)
  ultimately show ?thesis
    using nonempty by (simp add: quote_def encode_utf8_def Let_def)
qed

lemma quote_e_acute: "quote (JStr [233]) = Inr (lit ''%C3%A9'')"
  by (simp add: quote_def encode_utf8_def is_surrogate_def utf8_char_def quote_byte_def
      always_safe_def hex_upper_def lit_def)

lemma quote_surrogate:
  "quote (JStr [97, 55296]) =
     Inl (Raised UnicodeEncodeError
       (quoted (lit ''utf-8'') @ lit '' codec can'' @ [39] @ lit ''t encode character ''
        @ quoted (92 # lit ''ud800'') @ lit '' in position 1: surrogates not allowed''))"
  by (simp add: quote_def encode_utf8_def is_surrogate_def hex_lower_def lit_def quoted_def)

lemma quote_a_cat: "quote (JStr (lit ''a cat'')) = Inr (lit ''a%20cat'')"
  by (simp add: quote_def encode_utf8_def is_surrogate_def utf8_char_def quote_byte_def
      always_safe_def hex_upper_def lit_def)

subsection \<open>What the operations return\<close>

lemma call_community_api_returns:
  assumes "call_community_api prompt model max_tokens = Inr d"
  shows "\<exists>p c t. prompt = JStr p \<and> min_with max_tokens 20 = Inr c
           \<and> int_add (int (length (str_split p))) c = Inr t
           \<and> d = JObj
               [(lit ''text'', JStr (lit ''Community API response to: '' @ p)),
                (lit ''model'', model),
                (lit ''usage'', JObj
                   [(lit ''prompt_tokens'', JInt (int (length (str_split p)))),
                    (lit ''completion_tokens'', c),
                    (lit ''total_tokens'', t)])]"
  using assms
  by (auto simp: call_community_api_def split_def split: sum.splits json.splits)

lemma complete_text_calls: "snd (complete_text net prompt model max_tokens)
     = [text_request prompt model max_tokens]"
  by (simp add: complete_text_def)

lemma reraise_request_exception_Inr:
  "reraise_request_exception prefix r = Inr v \<longleftrightarrow> r = Inr v"
  by (simp add: reraise_request_exception_def split: sum.splits)

lemma complete_text_returns:
  assumes "fst (complete_text net prompt model max_tokens) = Inr d"
  shows "\<exists>p t resp data choice message.
           prompt = JStr p
           \<and> int_add (int (length (str_split p))) max_tokens = Inr t
           \<and> net (text_request prompt model max_tokens) = Inr resp
           \<and> raise_for_status resp = None
           \<and> json_body resp = Inr (JObj data)
           \<and> getitem0 (get_or data (lit ''choices'') (JList [JObj []])) = Inr (JObj choice)
           \<and> get_or choice (lit ''message'') (JObj []) = JObj message
           \<and> d = JObj
               [(lit ''text'', get_or message (lit ''content'') (JStr [])),
                (lit ''model'', model),
                (lit ''usage'', get_or data (lit ''usage'')
                   (JObj
                     [(lit ''prompt_tokens'', JInt (int (length (str_split p)))),
                      (lit ''completion_tokens'', max_tokens),
                      (lit ''total_tokens'', t)]))]"
proof -
  from assms obtain resp where resp: "net (text_request prompt model max_tokens) = Inr resp"
    by (cases "net (text_request prompt model max_tokens)")
      (auto simp: complete_text_def reraise_request_exception_def split: if_splits)
  from assms resp have status: "raise_for_status resp = None"
    by (cases "raise_for_status resp")
      (auto simp: complete_text_def reraise_request_exception_def)
  from assms resp status obtain body where body: "json_body resp = Inr body"
    by (cases "json_body resp")
      (auto simp: complete_text_def reraise_request_exception_def split: if_splits)
  from assms resp status body obtain data where data: "body = JObj data"
    by (cases body)
      (auto simp: complete_text_def reraise_request_exception_def dict_get_def no_attribute_def)
  from assms resp status body data obtain c
    where c: "getitem0 (get_or data (lit ''choices'') (JList [JObj []])) = Inr c"
    by (cases "getitem0 (get_or data (lit ''choices'') (JList [JObj []]))")
      (auto simp: complete_text_def reraise_request_exception_def split: if_splits)
  from assms resp status body data c obtain choice where choice: "c = JObj choice"
    by (cases c)
      (auto simp: complete_text_def reraise_request_exception_def dict_get_def no_attribute_def)
  from assms resp status body data c choice obtain message
    where message: "get_or choice (lit ''message'') (JObj []) = JObj message"
    by (cases "get_or choice (lit ''message'') (JObj [])")
      (auto simp: complete_text_def reraise_request_exception_def dict_get_def no_attribute_def)
  from assms resp status body data c choice message obtain p where p: "prompt = JStr p"
    by (cases prompt)
      (auto simp: complete_text_def reraise_request_exception_def split_def no_attribute_def)
  from assms resp status body data c choice message p obtain t
    where t: "int_add (int (length (str_split p))) max_tokens = Inr t"
    by (cases "int_add (int (length (str_split p))) max_tokens")
      (auto simp: complete_text_def reraise_request_exception_def split_def split: if_splits)
  from assms resp status body data c choice message p t
  have "d = JObj
               [(lit ''text'', get_or message (lit ''content'') (JStr [])),
                (lit ''model'', model),
                (lit ''usage'', get_or data (lit ''usage'')
                   (JObj
                     [(lit ''prompt_tokens'', JInt (int (length (str_split p)))),
                      (lit ''completion_tokens'', max_tokens),
                      (lit ''total_tokens'', t)]))]"
    by (simp add: complete_text_def reraise_request_exception_def split_def)
  with resp status body data c choice message p t show ?thesis
    by blast
qed

subsection \<open>The provider identifier\<close>

text \<open>
  C1. Whatever the standard input holds, whatever the network does and whatever
  \<^verbatim>\<open>json.dumps\<close> does with the result, the document each adapter prints has the key
  \<^verbatim>\<open>provider\<close> with the adapter's own fixed identifier: \<^verbatim>\<open>example_community\<close> for the
  one, \<^verbatim>\<open>pollinations\<close> for the other. This covers the Success and the Failure
  document alike.
\<close>

theorem provider_identifier_fixed:
  "field (stdout (example_community_main dumps stdin)) (lit ''provider'')
     = Some (JStr (lit ''example_community''))
   \<and> field (stdout (pollinations_main dumps' net stdin')) (lit ''provider'')
     = Some (JStr (lit ''pollinations''))"
proof
  show "field (stdout (example_community_main dumps stdin)) (lit ''provider'')
          = Some (JStr (lit ''example_community''))"
    by (simp add: example_community_main_def example_community_try_def print_json_def
        split: sum.splits option.splits)
  show "field (stdout (pollinations_main dumps' net stdin')) (lit ''provider'')
          = Some (JStr (lit ''pollinations''))"
    by (simp add: pollinations_main_def pollinations_try_def print_json_def
        split: sum.splits prod.splits option.splits)
qed

subsection \<open>Errors and exit codes\<close>

text \<open>
  C2. Each adapter turns every exception of a run into the Failure document and exit
  code 1, and prints the Success document with exit code 0 otherwise. Step by step:
  an exception of reading and parsing the input is reported as it is; an input that
  is no dict fails at the first \<^verbatim>\<open>get\<close>; for a dict the operation runs (for
  pollinations the one \<^verbatim>\<open>task_type\<close> selects), and its exception, if it raises, gives
  the Failure document with the text of that exception; when it returns a payload and
  \<^verbatim>\<open>json.dumps\<close> raises on the result, that exception gives the Failure document;
  otherwise the Success document with the payload is printed. A Failure document has the
  keys \<^verbatim>\<open>success\<close>, \<^verbatim>\<open>error\<close> and \<^verbatim>\<open>provider\<close> only. So every run ends with exit
  code 1 and a Failure document or with exit code 0 and a Success document.
\<close>

theorem every_error_becomes_failure:
  "example_community_main dumps (Inl e) =
     \<lparr>stdout = Failure (str_exc e) ''example_community'', exit_code = 1, calls = []\<rparr>
   \<and> ((\<forall>kvs. v \<noteq> JObj kvs) \<longrightarrow>
        example_community_main dumps (Inr v) =
          \<lparr>stdout = Failure (str_exc (no_attribute v ''get'')) ''example_community'',
           exit_code = 1, calls = []\<rparr>)
   \<and> example_community_main dumps (Inr (JObj kvs)) =
       (case call_community_api (get_or kvs (lit ''prompt'') (JStr []))
               (get_or kvs (lit ''model'') (JStr (lit ''default'')))
               (get_or kvs (lit ''max_tokens'') (JInt 100)) of
          Inl e' \<Rightarrow>
            \<lparr>stdout = Failure (str_exc e') ''example_community'', exit_code = 1, calls = []\<rparr>
        | Inr d \<Rightarrow>
            (case dumps (Success d 0.001 ''example_community'') of
               Some e' \<Rightarrow>
                 \<lparr>stdout = Failure (str_exc e') ''example_community'', exit_code = 1,
                  calls = []\<rparr>
             | None \<Rightarrow>
                 \<lparr>stdout = Success d 0.001 ''example_community'', exit_code = 0,
                  calls = []\<rparr>))
   \<and> pollinations_main dumps net (Inl e) =
       \<lparr>stdout = Failure (str_exc e) ''pollinations'', exit_code = 1, calls = []\<rparr>
   \<and> ((\<forall>kvs. v \<noteq> JObj kvs) \<longrightarrow>
        pollinations_main dumps net (Inr v) =
          \<lparr>stdout = Failure (str_exc (no_attribute v ''get'')) ''pollinations'',
           exit_code = 1, calls = []\<rparr>)
   \<and> pollinations_main dumps net (Inr (JObj kvs)) =
       (case (if get_or kvs (lit ''task_type'') (JStr (lit ''chat_completion''))
                 = JStr (lit ''image_generation'')
              then generate_image net (get_or kvs (lit ''prompt'') (JStr []))
                     (get_or kvs (lit ''model'') (JStr (lit ''openai'')))
              else complete_text net (get_or kvs (lit ''prompt'') (JStr []))
                     (get_or kvs (lit ''model'') (JStr (lit ''openai'')))
                     (get_or kvs (lit ''max_tokens'') (JInt 100))) of
          (Inl e', reqs) \<Rightarrow>
            \<lparr>stdout = Failure (str_exc e') ''pollinations'', exit_code = 1, calls = reqs\<rparr>
        | (Inr d, reqs) \<Rightarrow>
            (case dumps (Success d 0 ''pollinations'') of
               Some e' \<Rightarrow>
                 \<lparr>stdout = Failure (str_exc e') ''pollinations'', exit_code = 1, calls = reqs\<rparr>
             | None \<Rightarrow>
                 \<lparr>stdout = Success d 0 ''pollinations'', exit_code = 0, calls = reqs\<rparr>))
   \<and> ((exit_code (example_community_main dumps stdin) = 1
         \<and> (\<exists>m. stdout (example_community_main dumps stdin) = Failure m ''example_community''))
        \<or> (exit_code (example_community_main dumps stdin) = 0
         \<and> (\<exists>d. stdout (example_community_main dumps stdin)
                  = Success d 0.001 ''example_community'')))
   \<and> ((exit_code (pollinations_main dumps net stdin) = 1
         \<and> (\<exists>m. stdout (pollinations_main dumps net stdin) = Failure m ''pollinations''))
        \<or> (exit_code (pollinations_main dumps net stdin) = 0
         \<and> (\<exists>d. stdout (pollinations_main dumps net stdin) = Success d 0 ''pollinations'')))
   \<and> keys (Failure m provider) = [lit ''success'', lit ''error'', lit ''provider'']"
proof -
  have community_dict: "example_community_main dumps (Inr (JObj kvs)) =
       (case call_community_api (get_or kvs (lit ''prompt'') (JStr []))
               (get_or kvs (lit ''model'') (JStr (lit ''default'')))
               (get_or kvs (lit ''max_tokens'') (JInt 100)) of
          Inl e' \<Rightarrow>
            \<lparr>stdout = Failure (str_exc e') ''example_community'', exit_code = 1, calls = []\<rparr>
        | Inr d \<Rightarrow>
            (case dumps (Success d 0.001 ''example_community'') of
               Some e' \<Rightarrow>
                 \<lparr>stdout = Failure (str_exc e') ''example_community'', exit_code = 1,
                  calls = []\<rparr>
             | None \<Rightarrow>
                 \<lparr>stdout = Success d 0.001 ''example_community'', exit_code = 0,
                  calls = []\<rparr>))"
    by (simp add: example_community_main_dict outcome_of_def split: sum.splits option.splits)
  have pollinations_dict: "pollinations_main dumps net (Inr (JObj kvs)) =
       (case (if get_or kvs (lit ''task_type'') (JStr (lit ''chat_completion''))
                 = JStr (lit ''image_generation'')
              then generate_image net (get_or kvs (lit ''prompt'') (JStr []))
                     (get_or kvs (lit ''model'') (JStr (lit ''openai'')))
              else complete_text net (get_or kvs (lit ''prompt'') (JStr []))
                     (get_or kvs (lit ''model'') (JStr (lit ''openai'')))
                     (get_or kvs (lit ''max_tokens'') (JInt 100))) of
          (Inl e', reqs) \<Rightarrow>
            \<lparr>stdout = Failure (str_exc e') ''pollinations'', exit_code = 1, calls = reqs\<rparr>
        | (Inr d, reqs) \<Rightarrow>
            (case dumps (Success d 0 ''pollinations'') of
               Some e' \<Rightarrow>
                 \<lparr>stdout = Failure (str_exc e') ''pollinations'', exit_code = 1, calls = reqs\<rparr>
             | None \<Rightarrow>
                 \<lparr>stdout = Success d 0 ''pollinations'', exit_code = 0, calls = reqs\<rparr>))"
    unfolding pollinations_main_dict
    by (simp add: outcome_of_def split: sum.splits prod.splits)
  have community: "(exit_code (example_community_main dumps stdin) = 1
         \<and> (\<exists>m. stdout (example_community_main dumps stdin) = Failure m ''example_community''))
        \<or> (exit_code (example_community_main dumps stdin) = 0
         \<and> (\<exists>d. stdout (example_community_main dumps stdin)
                  = Success d 0.001 ''example_community''))"
    by (simp add: example_community_main_def example_community_try_def print_json_def
        Failure_def Success_def split: sum.splits option.splits)
  have pollinations: "(exit_code (pollinations_main dumps net stdin) = 1
         \<and> (\<exists>m. stdout (pollinations_main dumps net stdin) = Failure m ''pollinations''))
        \<or> (exit_code (pollinations_main dumps net stdin) = 0
         \<and> (\<exists>d. stdout (pollinations_main dumps net stdin) = Success d 0 ''pollinations''))"
    by (simp add: pollinations_main_def pollinations_try_def print_json_def
        Failure_def Success_def split: sum.splits prod.splits option.splits)
  have keys: "keys (Failure m provider) = [lit ''success'', lit ''error'', lit ''provider'']"
    by (simp add: Failure_def keys_def)
  show ?thesis
    by (intro conjI impI example_community_main_raised example_community_main_not_dict
        community_dict pollinations_main_raised pollinations_main_not_dict
        pollinations_dict community pollinations keys)
qed

theorem every_error_becomes_failure_witness:
  "example_community_main default_dumps
      (Inl (Raised Exception (lit ''Expecting value: line 1 column 1 (char 0)''))) =
     \<lparr>stdout = Failure (lit ''Expecting value: line 1 column 1 (char 0)'') ''example_community'',
      exit_code = 1, calls = []\<rparr>
   \<and> example_community_main default_dumps (Inr (JList [])) =
     \<lparr>stdout = Failure (quoted (lit ''list'') @ lit '' object has no attribute '' @ quoted (lit ''get''))
        ''example_community'',
      exit_code = 1, calls = []\<rparr>
   \<and> pollinations_main default_dumps timing_out (Inr (JList [])) =
     \<lparr>stdout = Failure (quoted (lit ''list'') @ lit '' object has no attribute '' @ quoted (lit ''get''))
        ''pollinations'',
      exit_code = 1, calls = []\<rparr>
   \<and> pollinations_main default_dumps timing_out
       (Inr (JObj [(lit ''prompt'', JStr (lit ''hello world''))])) =
     \<lparr>stdout = Failure (lit ''Pollinations text API request failed: timed out'') ''pollinations'',
      exit_code = 1,
      calls = [text_request (JStr (lit ''hello world'')) (JStr (lit ''openai'')) (JInt 100)]\<rparr>"
  using every_error_becomes_failure
    [of default_dumps "Raised Exception (lit ''Expecting value: line 1 column 1 (char 0)'')"
      "JList []" "[(lit ''prompt'', JStr (lit ''hello world''))]" timing_out]
  by (simp add: no_attribute_def complete_text_def reraise_request_exception_def
      lit_append [symmetric])

subsection \<open>The usage estimate of the mock adapter\<close>

lemma call_community_api_typed:
  "call_community_api (JStr p) model (JInt m) =
     Inr (JObj
       [(lit ''text'', JStr (lit ''Community API response to: '' @ p)),
        (lit ''model'', model),
        (lit ''usage'', JObj
           [(lit ''prompt_tokens'', JInt (int (length (str_split p)))),
            (lit ''completion_tokens'', JInt (min m 20)),
            (lit ''total_tokens'', JInt (int (length (str_split p)) + min m 20))])])"
  by (simp add: call_community_api_def split_def)

text \<open>
  C3, as stated, fails: the mock adapter caps the completion count at 20. For the
  request \<^verbatim>\<open>{"prompt": "hello world", "max_tokens": 100}\<close> it prints a Success document
  whose \<^verbatim>\<open>completion_tokens\<close> is 20, not the requested 100.
\<close>

theorem mock_completion_tokens_counterexample:
  "exit_code (example_community_main default_dumps (Inr (JObj
       [(lit ''prompt'', JStr (lit ''hello world'')), (lit ''max_tokens'', JInt 100)]))) = 0
   \<and> path (stdout (example_community_main default_dumps (Inr (JObj
       [(lit ''prompt'', JStr (lit ''hello world'')), (lit ''max_tokens'', JInt 100)]))))
       [''data'', ''usage'', ''completion_tokens''] = Some (JInt 20)
   \<and> path (stdout (example_community_main default_dumps (Inr (JObj
       [(lit ''prompt'', JStr (lit ''hello world'')), (lit ''max_tokens'', JInt 100)]))))
       [''data'', ''usage'', ''completion_tokens''] \<noteq> Some (JInt 100)"
  by (simp add: example_community_main_dict call_community_api_typed str_split_hello_world
      outcome_of_returned)

text \<open>
  C3, amended. For every request to the mock adapter whose prompt is a str \<open>p\<close> and
  whose \<^verbatim>\<open>max_tokens\<close> is an int \<open>m\<close> (each given or defaulted), the operation returns
  the text payload whose usage is: \<^verbatim>\<open>prompt_tokens\<close> the number of
  whitespace-separated words of \<open>p\<close>, \<^verbatim>\<open>completion_tokens\<close> the smaller of \<open>m\<close> and 20,
  \<^verbatim>\<open>total_tokens\<close> their sum. The run prints the Success document with that payload
  and ends with exit code 0, unless \<^verbatim>\<open>json.dumps\<close> raises on the document; so every
  Success document of such a request has that usage.
\<close>

theorem mock_usage_estimate:
  assumes "get_or kvs (lit ''prompt'') (JStr []) = JStr p"
    and "get_or kvs (lit ''max_tokens'') (JInt 100) = JInt m"
  shows "example_community_main dumps (Inr (JObj kvs)) =
      (case dumps (Success
              (JObj
                [(lit ''text'', JStr (lit ''Community API response to: '' @ p)),
                 (lit ''model'', get_or kvs (lit ''model'') (JStr (lit ''default''))),
                 (lit ''usage'', JObj
                    [(lit ''prompt_tokens'', JInt (int (length (str_split p)))),
                     (lit ''completion_tokens'', JInt (min m 20)),
                     (lit ''total_tokens'', JInt (int (length (str_split p)) + min m 20))])])
              0.001 ''example_community'') of
         Some e \<Rightarrow>
           \<lparr>stdout = Failure (str_exc e) ''example_community'', exit_code = 1, calls = []\<rparr>
       | None \<Rightarrow>
           \<lparr>stdout = Success
              (JObj
                [(lit ''text'', JStr (lit ''Community API response to: '' @ p)),
                 (lit ''model'', get_or kvs (lit ''model'') (JStr (lit ''default''))),
                 (lit ''usage'', JObj
                    [(lit ''prompt_tokens'', JInt (int (length (str_split p)))),
                     (lit ''completion_tokens'', JInt (min m 20)),
                     (lit ''total_tokens'', JInt (int (length (str_split p)) + min m 20))])])
              0.001 ''example_community'',
            exit_code = 0, calls = []\<rparr>)
    \<and> (exit_code (example_community_main dumps (Inr (JObj kvs))) = 0 \<longrightarrow>
        path (stdout (example_community_main dumps (Inr (JObj kvs)))) [''data'', ''usage''] =
          Some (JObj
            [(lit ''prompt_tokens'', JInt (int (length (str_split p)))),
             (lit ''completion_tokens'', JInt (min m 20)),
             (lit ''total_tokens'', JInt (int (length (str_split p)) + min m 20))]))"
proof -
  let ?payload = "JObj
      [(lit ''text'', JStr (lit ''Community API response to: '' @ p)),
       (lit ''model'', get_or kvs (lit ''model'') (JStr (lit ''default''))),
       (lit ''usage'', JObj
          [(lit ''prompt_tokens'', JInt (int (length (str_split p)))),
           (lit ''completion_tokens'', JInt (min m 20)),
           (lit ''total_tokens'', JInt (int (length (str_split p)) + min m 20))])]"
  have run: "example_community_main dumps (Inr (JObj kvs)) =
      (case dumps (Success ?payload 0.001 ''example_community'') of
         Some e \<Rightarrow>
           \<lparr>stdout = Failure (str_exc e) ''example_community'', exit_code = 1, calls = []\<rparr>
       | None \<Rightarrow>
           \<lparr>stdout = Success ?payload 0.001 ''example_community'', exit_code = 0, calls = []\<rparr>)"
    using assms
    by (simp add: example_community_main_dict call_community_api_typed outcome_of_returned
        split: option.splits)
  show ?thesis
  proof (cases "dumps (Success ?payload 0.001 ''example_community'')")
    case None
    with run show ?thesis by (simp add: Success_def)
  next
    case (Some e)
    with run show ?thesis by simp
  qed
qed

theorem mock_usage_estimate_witness:
  "exit_code (example_community_main default_dumps (Inr (JObj
       [(lit ''prompt'', JStr (lit ''hello world'')), (lit ''max_tokens'', JInt 100)]))) = 0
   \<and> path (stdout (example_community_main default_dumps (Inr (JObj
       [(lit ''prompt'', JStr (lit ''hello world'')), (lit ''max_tokens'', JInt 100)]))))
     [''data'', ''usage''] =
   Some (JObj
     [(lit ''prompt_tokens'', JInt 2),
      (lit ''completion_tokens'', JInt 20),
      (lit ''total_tokens'', JInt 22)])"
  using mock_usage_estimate [of "[(lit ''prompt'', JStr (lit ''hello world'')),
      (lit ''max_tokens'', JInt 100)]" "lit ''hello world''" 100 default_dumps]
  by (auto simp: str_split_hello_world)

subsection \<open>The reference request of the mock adapter\<close>

text \<open>
  C4. For the input \<^verbatim>\<open>{"prompt":"hello world","model":"default","max_tokens":5}\<close> the
  mock adapter prints the Success document with \<^verbatim>\<open>data.text\<close> equal to
  \<^verbatim>\<open>Community API response to: hello world\<close>, \<^verbatim>\<open>completion_tokens\<close> 5,
  \<^verbatim>\<open>prompt_tokens\<close> 2 and \<^verbatim>\<open>total_tokens\<close> 7, and exits with code 0.
\<close>

theorem mock_hello_world:
  "example_community_main default_dumps (Inr (JObj
      [(lit ''prompt'', JStr (lit ''hello world'')),
       (lit ''model'', JStr (lit ''default'')),
       (lit ''max_tokens'', JInt 5)])) =
   \<lparr>stdout = Success
      (JObj
        [(lit ''text'', JStr (lit ''Community API response to: hello world'')),
         (lit ''model'', JStr (lit ''default'')),
         (lit ''usage'', JObj
            [(lit ''prompt_tokens'', JInt 2),
             (lit ''completion_tokens'', JInt 5),
             (lit ''total_tokens'', JInt 7)])])
      0.001 ''example_community'',
    exit_code = 0, calls = []\<rparr>"
  by (simp add: example_community_main_dict call_community_api_typed str_split_hello_world
      outcome_of_returned lit_append [symmetric])

subsection \<open>Usage accounting of text completions\<close>

text \<open>
  C5, as stated, fails: pollinations hands on whatever the response holds under
  \<^verbatim>\<open>usage\<close>. For the request \<^verbatim>\<open>{"prompt": "hello world"}\<close> and the response
  \<^verbatim>\<open>{"choices": [{"message": {"content": "Hi"}}], "usage": {}}\<close> it prints a Success
  document whose usage is the empty object: none of the three counts is there.
\<close>

theorem usage_fields_counterexample:
  "exit_code (pollinations_main default_dumps
       (responding (JObj
          [(lit ''choices'',
              JList [JObj [(lit ''message'', JObj [(lit ''content'', JStr (lit ''Hi''))])]]),
           (lit ''usage'', JObj [])]))
       (Inr (JObj [(lit ''prompt'', JStr (lit ''hello world''))]))) = 0
   \<and> path (stdout (pollinations_main default_dumps
       (responding (JObj
          [(lit ''choices'',
              JList [JObj [(lit ''message'', JObj [(lit ''content'', JStr (lit ''Hi''))])]]),
           (lit ''usage'', JObj [])]))
       (Inr (JObj [(lit ''prompt'', JStr (lit ''hello world''))]))))
       [''data'', ''usage''] = Some (JObj [])
   \<and> path (stdout (pollinations_main default_dumps
       (responding (JObj
          [(lit ''choices'',
              JList [JObj [(lit ''message'', JObj [(lit ''content'', JStr (lit ''Hi''))])]]),
           (lit ''usage'', JObj [])]))
       (Inr (JObj [(lit ''prompt'', JStr (lit ''hello world''))]))))
       [''data'', ''usage'', ''prompt_tokens''] = None"
  by (simp add: pollinations_main_dict complete_text_def reraise_request_exception_def
      getitem0_def split_def outcome_of_returned)

text \<open>
  C5, amended. Every text completion that ends in a Success document has a usage entry
  in its payload. In the mock adapter it is the estimate with exactly the three counts:
  \<^verbatim>\<open>prompt_tokens\<close> the number of whitespace-separated words of the prompt,
  \<^verbatim>\<open>completion_tokens\<close> \<^verbatim>\<open>min(max_tokens, 20)\<close> (for an int \<^verbatim>\<open>max_tokens\<close> at most
  that), \<^verbatim>\<open>total_tokens\<close> their sum. In pollinations it is the value of the key
  \<^verbatim>\<open>usage\<close> of the response, as it is and whatever it holds, when the response has the
  key; otherwise the estimate with the three counts: \<^verbatim>\<open>prompt_tokens\<close> the number of
  words of the prompt, \<^verbatim>\<open>completion_tokens\<close> the requested \<^verbatim>\<open>max_tokens\<close>,
  \<^verbatim>\<open>total_tokens\<close> their sum.
\<close>

theorem usage_accounting:
  "(exit_code (example_community_main dumps stdin) = 0 \<longrightarrow>
      (\<exists>kvs p c t.
          stdin = Inr (JObj kvs)
          \<and> get_or kvs (lit ''prompt'') (JStr []) = JStr p
          \<and> min_with (get_or kvs (lit ''max_tokens'') (JInt 100)) 20 = Inr c
          \<and> int_add (int (length (str_split p))) c = Inr t
          \<and> (\<forall>m. get_or kvs (lit ''max_tokens'') (JInt 100) = JInt m \<longrightarrow>
                c = JInt (min m 20) \<and> min m 20 \<le> m
                \<and> t = JInt (int (length (str_split p)) + min m 20))
          \<and> path (stdout (example_community_main dumps stdin)) [''data'', ''usage''] =
              Some (JObj
                [(lit ''prompt_tokens'', JInt (int (length (str_split p)))),
                 (lit ''completion_tokens'', c),
                 (lit ''total_tokens'', t)])))
   \<and> (exit_code (pollinations_main dumps' net (Inr (JObj kvs'))) = 0
       \<and> get_or kvs' (lit ''task_type'') (JStr (lit ''chat_completion''))
           \<noteq> JStr (lit ''image_generation'') \<longrightarrow>
      (\<exists>p t resp data.
          get_or kvs' (lit ''prompt'') (JStr []) = JStr p
          \<and> int_add (int (length (str_split p))) (get_or kvs' (lit ''max_tokens'') (JInt 100))
              = Inr t
          \<and> (\<forall>m. get_or kvs' (lit ''max_tokens'') (JInt 100) = JInt m \<longrightarrow>
                t = JInt (int (length (str_split p)) + m))
          \<and> net (text_request (JStr p) (get_or kvs' (lit ''model'') (JStr (lit ''openai'')))
                (get_or kvs' (lit ''max_tokens'') (JInt 100))) = Inr resp
          \<and> json_body resp = Inr (JObj data)
          \<and> path (stdout (pollinations_main dumps' net (Inr (JObj kvs')))) [''data'', ''usage''] =
              Some (get_or data (lit ''usage'')
                (JObj
                  [(lit ''prompt_tokens'', JInt (int (length (str_split p)))),
                   (lit ''completion_tokens'', get_or kvs' (lit ''max_tokens'') (JInt 100)),
                   (lit ''total_tokens'', t)]))))"
proof (intro conjI impI)
  assume ok: "exit_code (example_community_main dumps stdin) = 0"
  then obtain v where v: "stdin = Inr v"
    by (cases stdin) (simp_all add: example_community_main_raised)
  with ok obtain kvs where kvs: "v = JObj kvs"
    by (cases v) (simp_all add: example_community_main_not_dict)
  let ?mt = "get_or kvs (lit ''max_tokens'') (JInt 100)"
  from ok v kvs obtain d
    where d: "call_community_api (get_or kvs (lit ''prompt'') (JStr []))
                (get_or kvs (lit ''model'') (JStr (lit ''default''))) ?mt = Inr d"
      and printed: "stdout (example_community_main dumps stdin)
                = Success d 0.001 ''example_community''"
    by (auto simp: example_community_main_dict dest: outcome_of_exit0)
  from call_community_api_returns [OF d] obtain p c t
    where p: "get_or kvs (lit ''prompt'') (JStr []) = JStr p"
      and c: "min_with ?mt 20 = Inr c"
      and t: "int_add (int (length (str_split p))) c = Inr t"
      and usage: "field d (lit ''usage'') = Some (JObj
                [(lit ''prompt_tokens'', JInt (int (length (str_split p)))),
                 (lit ''completion_tokens'', c),
                 (lit ''total_tokens'', t)])"
    by auto
  have ints: "\<forall>m. ?mt = JInt m \<longrightarrow>
      c = JInt (min m 20) \<and> min m 20 \<le> m \<and> t = JInt (int (length (str_split p)) + min m 20)"
    using c t by (auto simp: min_with_def int_lt_def int_add_def min_def split: if_splits sum.splits)
  have "path (stdout (example_community_main dumps stdin)) [''data'', ''usage''] =
      Some (JObj
        [(lit ''prompt_tokens'', JInt (int (length (str_split p)))),
         (lit ''completion_tokens'', c),
         (lit ''total_tokens'', t)])"
    using printed usage by simp
  with v kvs p c t ints
  show "\<exists>kvs p c t.
          stdin = Inr (JObj kvs)
          \<and> get_or kvs (lit ''prompt'') (JStr []) = JStr p
          \<and> min_with (get_or kvs (lit ''max_tokens'') (JInt 100)) 20 = Inr c
          \<and> int_add (int (length (str_split p))) c = Inr t
          \<and> (\<forall>m. get_or kvs (lit ''max_tokens'') (JInt 100) = JInt m \<longrightarrow>
                c = JInt (min m 20) \<and> min m 20 \<le> m
                \<and> t = JInt (int (length (str_split p)) + min m 20))
          \<and> path (stdout (example_community_main dumps stdin)) [''data'', ''usage''] =
              Some (JObj
                [(lit ''prompt_tokens'', JInt (int (length (str_split p)))),
                 (lit ''completion_tokens'', c),
                 (lit ''total_tokens'', t)])"
    by blast
next
  let ?prompt = "get_or kvs' (lit ''prompt'') (JStr [])"
  let ?model = "get_or kvs' (lit ''model'') (JStr (lit ''openai''))"
  let ?mt = "get_or kvs' (lit ''max_tokens'') (JInt 100)"
  assume "exit_code (pollinations_main dumps' net (Inr (JObj kvs'))) = 0
       \<and> get_or kvs' (lit ''task_type'') (JStr (lit ''chat_completion''))
           \<noteq> JStr (lit ''image_generation'')"
  then have ok: "exit_code (pollinations_main dumps' net (Inr (JObj kvs'))) = 0"
    and not_image: "get_or kvs' (lit ''task_type'') (JStr (lit ''chat_completion''))
           \<noteq> JStr (lit ''image_generation'')"
    by simp_all
  from ok not_image obtain d where d: "fst (complete_text net ?prompt ?model ?mt) = Inr d"
    and printed: "stdout (pollinations_main dumps' net (Inr (JObj kvs')))
                = Success d 0 ''pollinations''"
    by (auto simp: pollinations_main_text dest: outcome_of_exit0)
  from complete_text_returns [OF d] obtain p t resp data
    where p: "?prompt = JStr p"
      and t: "int_add (int (length (str_split p))) ?mt = Inr t"
      and resp: "net (text_request ?prompt ?model ?mt) = Inr resp"
      and data: "json_body resp = Inr (JObj data)"
      and usage: "field d (lit ''usage'') = Some (get_or data (lit ''usage'')
                (JObj
                  [(lit ''prompt_tokens'', JInt (int (length (str_split p)))),
                   (lit ''completion_tokens'', ?mt),
                   (lit ''total_tokens'', t)]))"
    by auto
  have ints: "\<forall>m. ?mt = JInt m \<longrightarrow> t = JInt (int (length (str_split p)) + m)"
    using t by (auto simp: int_add_def)
  have "path (stdout (pollinations_main dumps' net (Inr (JObj kvs')))) [''data'', ''usage''] =
      Some (get_or data (lit ''usage'')
        (JObj
          [(lit ''prompt_tokens'', JInt (int (length (str_split p)))),
           (lit ''completion_tokens'', ?mt),
           (lit ''total_tokens'', t)]))"
    using printed usage by simp
  with p t resp data ints
  show "\<exists>p t resp data.
          ?prompt = JStr p
          \<and> int_add (int (length (str_split p))) ?mt = Inr t
          \<and> (\<forall>m. ?mt = JInt m \<longrightarrow> t = JInt (int (length (str_split p)) + m))
          \<and> net (text_request (JStr p) ?model ?mt) = Inr resp
          \<and> json_body resp = Inr (JObj data)
          \<and> path (stdout (pollinations_main dumps' net (Inr (JObj kvs')))) [''data'', ''usage''] =
              Some (get_or data (lit ''usage'')
                (JObj
                  [(lit ''prompt_tokens'', JInt (int (length (str_split p)))),
                   (lit ''completion_tokens'', ?mt),
                   (lit ''total_tokens'', t)]))"
    by auto
qed

theorem usage_accounting_witness:
  "exit_code (example_community_main default_dumps
       (Inr (JObj [(lit ''prompt'', JStr (lit ''hello world''))]))) = 0
   \<and> path (stdout (example_community_main default_dumps
       (Inr (JObj [(lit ''prompt'', JStr (lit ''hello world''))]))))
       [''data'', ''usage''] =
     Some (JObj
       [(lit ''prompt_tokens'', JInt 2),
        (lit ''completion_tokens'', JInt 20),
        (lit ''total_tokens'', JInt 22)])
   \<and> exit_code (pollinations_main default_dumps
       (responding (JObj
          [(lit ''choices'',
              JList [JObj [(lit ''message'', JObj [(lit ''content'', JStr (lit ''Hi''))])]])]))
       (Inr (JObj [(lit ''prompt'', JStr (lit ''hello world''))]))) = 0
   \<and> path (stdout (pollinations_main default_dumps
       (responding (JObj
          [(lit ''choices'',
              JList [JObj [(lit ''message'', JObj [(lit ''content'', JStr (lit ''Hi''))])]])]))
       (Inr (JObj [(lit ''prompt'', JStr (lit ''hello world''))]))))
       [''data'', ''usage''] =
     Some (JObj
       [(lit ''prompt_tokens'', JInt 2),
        (lit ''completion_tokens'', JInt 100),
        (lit ''total_tokens'', JInt 102)])"
proof -
  let ?kvs = "[(lit ''prompt'', JStr (lit ''hello world''))]"
  let ?net = "responding (JObj
          [(lit ''choices'',
              JList [JObj [(lit ''message'', JObj [(lit ''content'', JStr (lit ''Hi''))])]])])"
  have mock: "exit_code (example_community_main default_dumps (Inr (JObj ?kvs))) = 0"
    by (simp add: example_community_main_dict call_community_api_typed str_split_hello_world
        outcome_of_returned)
  have poll: "exit_code (pollinations_main default_dumps ?net (Inr (JObj ?kvs))) = 0"
    by (simp add: pollinations_main_dict complete_text_def reraise_request_exception_def
        getitem0_def split_def str_split_hello_world outcome_of_returned)
  show ?thesis
    using usage_accounting [of default_dumps "Inr (JObj ?kvs)" default_dumps ?net ?kvs] mock poll
    by (auto simp: str_split_hello_world)
qed

subsection \<open>Dispatch on the task type\<close>

lemma generate_image_calls:
  "\<forall>r \<in> set (snd (generate_image net prompt model)). \<exists>url. r = HEAD url 10"
  by (simp add: generate_image_def Let_def split: sum.splits)

text \<open>
  C6. For every dict request the pollinations adapter runs exactly one operation,
  chosen by \<^verbatim>\<open>task_type\<close>. When the value is the str \<^verbatim>\<open>image_generation\<close>, the printed
  document is the one of \<^verbatim>\<open>generate_image\<close>, the requests made are its requests, and
  each of them is a HEAD request: the text endpoint is not called. For any other value,
  and for a request without the key, the printed document is the one of
  \<^verbatim>\<open>complete_text\<close>, and the one request made is its POST to the text endpoint.
\<close>

theorem dispatch_by_task_type:
  "(get_or kvs (lit ''task_type'') (JStr (lit ''chat_completion'')) = JStr (lit ''image_generation'')
      \<longrightarrow>
      stdout (pollinations_main dumps net (Inr (JObj kvs))) =
        envelope_of dumps
          (fst (generate_image net (get_or kvs (lit ''prompt'') (JStr []))
                  (get_or kvs (lit ''model'') (JStr (lit ''openai'')))))
          0 ''pollinations''
      \<and> calls (pollinations_main dumps net (Inr (JObj kvs))) =
          snd (generate_image net (get_or kvs (lit ''prompt'') (JStr []))
                 (get_or kvs (lit ''model'') (JStr (lit ''openai''))))
      \<and> (\<forall>r \<in> set (calls (pollinations_main dumps net (Inr (JObj kvs)))). \<exists>url. r = HEAD url 10))
   \<and> (get_or kvs (lit ''task_type'') (JStr (lit ''chat_completion'')) \<noteq> JStr (lit ''image_generation'')
      \<longrightarrow>
      stdout (pollinations_main dumps net (Inr (JObj kvs))) =
        envelope_of dumps
          (fst (complete_text net (get_or kvs (lit ''prompt'') (JStr []))
                  (get_or kvs (lit ''model'') (JStr (lit ''openai'')))
                  (get_or kvs (lit ''max_tokens'') (JInt 100))))
          0 ''pollinations''
      \<and> calls (pollinations_main dumps net (Inr (JObj kvs))) =
          [text_request (get_or kvs (lit ''prompt'') (JStr []))
             (get_or kvs (lit ''model'') (JStr (lit ''openai'')))
             (get_or kvs (lit ''max_tokens'') (JInt 100))])
   \<and> (map_of kvs (lit ''task_type'') = None \<longrightarrow>
      get_or kvs (lit ''task_type'') (JStr (lit ''chat_completion'')) \<noteq> JStr (lit ''image_generation''))"
proof (intro conjI impI)
  let ?img = "generate_image net (get_or kvs (lit ''prompt'') (JStr []))
                  (get_or kvs (lit ''model'') (JStr (lit ''openai'')))"
  assume image: "get_or kvs (lit ''task_type'') (JStr (lit ''chat_completion''))
      = JStr (lit ''image_generation'')"
  then show "stdout (pollinations_main dumps net (Inr (JObj kvs)))
      = envelope_of dumps (fst ?img) 0 ''pollinations''"
    by (simp add: pollinations_main_image outcome_of_fields)
  from image show made: "calls (pollinations_main dumps net (Inr (JObj kvs))) = snd ?img"
    by (simp add: pollinations_main_image outcome_of_fields)
  show "\<forall>r \<in> set (calls (pollinations_main dumps net (Inr (JObj kvs)))). \<exists>url. r = HEAD url 10"
    unfolding made by (rule generate_image_calls)
next
  let ?txt = "complete_text net (get_or kvs (lit ''prompt'') (JStr []))
                  (get_or kvs (lit ''model'') (JStr (lit ''openai'')))
                  (get_or kvs (lit ''max_tokens'') (JInt 100))"
  assume other: "get_or kvs (lit ''task_type'') (JStr (lit ''chat_completion''))
      \<noteq> JStr (lit ''image_generation'')"
  then show "stdout (pollinations_main dumps net (Inr (JObj kvs)))
      = envelope_of dumps (fst ?txt) 0 ''pollinations''"
    by (simp add: pollinations_main_text outcome_of_fields)
  from other show "calls (pollinations_main dumps net (Inr (JObj kvs))) =
          [text_request (get_or kvs (lit ''prompt'') (JStr []))
             (get_or kvs (lit ''model'') (JStr (lit ''openai'')))
             (get_or kvs (lit ''max_tokens'') (JInt 100))]"
    by (simp add: pollinations_main_text outcome_of_fields complete_text_calls)
next
  assume "map_of kvs (lit ''task_type'') = None"
  then show "get_or kvs (lit ''task_type'') (JStr (lit ''chat_completion''))
      \<noteq> JStr (lit ''image_generation'')"
    by (simp add: get_or_missing)
qed

theorem dispatch_by_task_type_witness:
  "calls (pollinations_main default_dumps (responding (JObj []))
      (Inr (JObj [(lit ''prompt'', JStr (lit ''a cat'')),
                  (lit ''task_type'', JStr (lit ''image_generation''))])))
     = [HEAD (lit ''https://image.pollinations.ai/prompt/a%20cat'') 10]
   \<and> calls (pollinations_main default_dumps (responding (JObj []))
      (Inr (JObj [(lit ''prompt'', JStr (lit ''a cat'')),
                  (lit ''task_type'', JStr (lit ''chat_completion''))])))
     = [text_request (JStr (lit ''a cat'')) (JStr (lit ''openai'')) (JInt 100)]
   \<and> calls (pollinations_main default_dumps (responding (JObj []))
      (Inr (JObj [(lit ''prompt'', JStr (lit ''a cat''))])))
     = [text_request (JStr (lit ''a cat'')) (JStr (lit ''openai'')) (JInt 100)]"
  using
    dispatch_by_task_type
      [of "[(lit ''prompt'', JStr (lit ''a cat'')),
            (lit ''task_type'', JStr (lit ''image_generation''))]"
        default_dumps "responding (JObj [])"]
    dispatch_by_task_type
      [of "[(lit ''prompt'', JStr (lit ''a cat'')),
            (lit ''task_type'', JStr (lit ''chat_completion''))]"
        default_dumps "responding (JObj [])"]
    dispatch_by_task_type
      [of "[(lit ''prompt'', JStr (lit ''a cat''))]"
        default_dumps "responding (JObj [])"]
  by (simp add: generate_image_def Let_def quote_a_cat lit_append [symmetric])

subsection \<open>Defaults of missing fields\<close>



subsection \<open>The image descriptor\<close>

text \<open>
  C8. For every request to the pollinations adapter with \<^verbatim>\<open>task_type\<close> equal to
  \<^verbatim>\<open>image_generation\<close> and a str prompt that can be quoted, whose reachability check
  succeeds (the HEAD request for the image URL returns a response and
  \<^verbatim>\<open>raise_for_status\<close> does not raise), the operation returns the descriptor:
  \<^verbatim>\<open>url\<close> is the image endpoint, a slash and the URL-quoted prompt; \<^verbatim>\<open>prompt\<close> is the
  prompt as given; \<^verbatim>\<open>model\<close> is \<^verbatim>\<open>pollinations-image\<close>; \<^verbatim>\<open>size\<close> is
  \<^verbatim>\<open>1024x1024\<close>. The adapter prints the Success document with this payload and ends
  with exit code 0 (unless \<^verbatim>\<open>json.dumps\<close> raises on that document, which holds strs
  and no int), so the payload of its Success document is this descriptor.
\<close>

theorem image_descriptor:
  assumes "get_or kvs (lit ''task_type'') (JStr (lit ''chat_completion''))
             = JStr (lit ''image_generation'')"
    and "get_or kvs (lit ''prompt'') (JStr []) = JStr p"
    and "quote (JStr p) = Inr q"
    and "net (HEAD (lit ''https://image.pollinations.ai/prompt/'' @ q) 10) = Inr resp"
    and "raise_for_status resp = None"
  shows "pollinations_main dumps net (Inr (JObj kvs)) =
    (case dumps (Success
            (JObj
              [(lit ''url'', JStr (lit ''https://image.pollinations.ai/prompt/'' @ q)),
               (lit ''prompt'', JStr p),
               (lit ''model'', JStr (lit ''pollinations-image'')),
               (lit ''size'', JStr (lit ''1024x1024''))])
            0 ''pollinations'') of
       Some e \<Rightarrow>
         \<lparr>stdout = Failure (str_exc e) ''pollinations'', exit_code = 1,
          calls = [HEAD (lit ''https://image.pollinations.ai/prompt/'' @ q) 10]\<rparr>
     | None \<Rightarrow>
         \<lparr>stdout = Success
            (JObj
              [(lit ''url'', JStr (lit ''https://image.pollinations.ai/prompt/'' @ q)),
               (lit ''prompt'', JStr p),
               (lit ''model'', JStr (lit ''pollinations-image'')),
               (lit ''size'', JStr (lit ''1024x1024''))])
            0 ''pollinations'',
          exit_code = 0,
          calls = [HEAD (lit ''https://image.pollinations.ai/prompt/'' @ q) 10]\<rparr>)
    \<and> (exit_code (pollinations_main dumps net (Inr (JObj kvs))) = 0 \<longrightarrow>
        path (stdout (pollinations_main dumps net (Inr (JObj kvs)))) [''data''] =
          Some (JObj
            [(lit ''url'', JStr (lit ''https://image.pollinations.ai/prompt/'' @ q)),
             (lit ''prompt'', JStr p),
             (lit ''model'', JStr (lit ''pollinations-image'')),
             (lit ''size'', JStr (lit ''1024x1024''))]))
    \<and> default_dumps (Success
            (JObj
              [(lit ''url'', JStr (lit ''https://image.pollinations.ai/prompt/'' @ q)),
               (lit ''prompt'', JStr p),
               (lit ''model'', JStr (lit ''pollinations-image'')),
               (lit ''size'', JStr (lit ''1024x1024''))])
            0 ''pollinations'') = None"
proof -
  let ?descriptor = "JObj
      [(lit ''url'', JStr (lit ''https://image.pollinations.ai/prompt/'' @ q)),
       (lit ''prompt'', JStr p),
       (lit ''model'', JStr (lit ''pollinations-image'')),
       (lit ''size'', JStr (lit ''1024x1024''))]"
  have url: "lit ''https://image.pollinations.ai/prompt'' @ lit ''/'' @ q
      = lit ''https://image.pollinations.ai/prompt/'' @ q"
    by (simp add: lit_def)
  have image: "generate_image net (JStr p) (get_or kvs (lit ''model'') (JStr (lit ''openai'')))
      = (Inr ?descriptor, [HEAD (lit ''https://image.pollinations.ai/prompt/'' @ q) 10])"
    using assms(3-5) by (simp add: generate_image_def Let_def url reraise_request_exception_def)
  have run: "pollinations_main dumps net (Inr (JObj kvs)) =
      outcome_of dumps (Inr ?descriptor) 0 ''pollinations''
        [HEAD (lit ''https://image.pollinations.ai/prompt/'' @ q) 10]"
    using assms(1,2) image by (simp add: pollinations_main_image)
  have printable: "default_dumps (Success ?descriptor 0 ''pollinations'') = None"
    by simp
  show ?thesis
  proof (cases "dumps (Success ?descriptor 0 ''pollinations'')")
    case None
    with run printable show ?thesis by (simp add: outcome_of_returned)
  next
    case (Some e)
    with run printable show ?thesis by (simp add: outcome_of_returned)
  qed
qed

theorem image_descriptor_witness:
  "pollinations_main default_dumps (responding (JObj []))
      (Inr (JObj [(lit ''prompt'', JStr (lit ''a cat'')),
                  (lit ''task_type'', JStr (lit ''image_generation''))])) =
    \<lparr>stdout = Success
       (JObj
         [(lit ''url'', JStr (lit ''https://image.pollinations.ai/prompt/a%20cat'')),
          (lit ''prompt'', JStr (lit ''a cat'')),
          (lit ''model'', JStr (lit ''pollinations-image'')),
          (lit ''size'', JStr (lit ''1024x1024''))])
       0 ''pollinations'',
     exit_code = 0,
     calls = [HEAD (lit ''https://image.pollinations.ai/prompt/a%20cat'') 10]\<rparr>"
  using image_descriptor
    [of "[(lit ''prompt'', JStr (lit ''a cat'')),
          (lit ''task_type'', JStr (lit ''image_generation''))]"
      "lit ''a cat''" "lit ''a%20cat''"
      "responding (JObj [])"
      "\<lparr>raise_for_status = None, json_body = Inr (JObj [])\<rparr>" default_dumps]
  by (simp add: quote_a_cat lit_append [symmetric])

subsection \<open>The mock adapter and the task type\<close>



subsection \<open>A response without choices\<close>

text \<open>
  C10, as stated, fails: a good response without \<^verbatim>\<open>choices\<close> does not always give a
  Success document. The default of \<^verbatim>\<open>data.get('usage', ...)\<close> is built whatever the
  response holds, and for the request \<^verbatim>\<open>{"prompt": 5}\<close> its \<^verbatim>\<open>prompt.split()\<close> raises
  \<^verbatim>\<open>AttributeError\<close>: with the response \<^verbatim>\<open>{}\<close> the run prints the Failure document and
  ends with exit code 1.
\<close>

theorem choices_missing_counterexample:
  "pollinations_main default_dumps (responding (JObj []))
      (Inr (JObj [(lit ''prompt'', JInt 5)])) =
     \<lparr>stdout = Failure
        (quoted (lit ''int'') @ lit '' object has no attribute '' @ quoted (lit ''split''))
        ''pollinations'',
      exit_code = 1,
      calls = [text_request (JInt 5) (JStr (lit ''openai'')) (JInt 100)]\<rparr>
   \<and> path (stdout (pollinations_main default_dumps (responding (JObj []))
      (Inr (JObj [(lit ''prompt'', JInt 5)])))) [''data'', ''text''] = None"
  by (simp add: pollinations_main_dict complete_text_def reraise_request_exception_def
      getitem0_def split_def no_attribute_def Failure_def)

text \<open>
  C10, amended. Take a dict request that pollinations sends to text completion, and let
  the POST return a response with a good status whose body is a JSON object. When the
  object has no key \<^verbatim>\<open>choices\<close> and the request has a str prompt and an int
  \<^verbatim>\<open>max_tokens\<close> (given or defaulted), the operation returns a payload whose \<^verbatim>\<open>text\<close>
  is the empty str, and the run prints the Success document with it and ends with exit
  code 0, unless \<^verbatim>\<open>json.dumps\<close> raises on the document, as it does when the estimated
  \<^verbatim>\<open>total_tokens\<close> has more digits than the interpreter prints; then the run prints the
  Failure document and ends with exit code 1. When \<^verbatim>\<open>choices\<close> is the empty list,
  whatever the request holds, the lookup of its first element raises \<^verbatim>\<open>IndexError\<close>;
  the exception is no \<open>RequestException\<close>, so it reaches \<^verbatim>\<open>main\<close> as it is, and the run
  prints the Failure document with its text and ends with exit code 1.
\<close>

theorem choices_missing_or_empty:
  assumes "get_or kvs (lit ''task_type'') (JStr (lit ''chat_completion''))
             \<noteq> JStr (lit ''image_generation'')"
    and "net (text_request (get_or kvs (lit ''prompt'') (JStr []))
                (get_or kvs (lit ''model'') (JStr (lit ''openai'')))
                (get_or kvs (lit ''max_tokens'') (JInt 100))) = Inr resp"
    and "raise_for_status resp = None"
    and "json_body resp = Inr (JObj data)"
  shows "(map_of data (lit ''choices'') = None
          \<and> get_or kvs (lit ''prompt'') (JStr []) = JStr p
          \<and> get_or kvs (lit ''max_tokens'') (JInt 100) = JInt m \<longrightarrow>
          pollinations_main dumps net (Inr (JObj kvs)) =
            (case dumps (Success
                    (JObj
                      [(lit ''text'', JStr []),
                       (lit ''model'', get_or kvs (lit ''model'') (JStr (lit ''openai''))),
                       (lit ''usage'', get_or data (lit ''usage'')
                          (JObj
                            [(lit ''prompt_tokens'', JInt (int (length (str_split p)))),
                             (lit ''completion_tokens'', JInt m),
                             (lit ''total_tokens'', JInt (int (length (str_split p)) + m))]))])
                    0 ''pollinations'') of
               Some e \<Rightarrow>
                 \<lparr>stdout = Failure (str_exc e) ''pollinations'', exit_code = 1,
                  calls = [text_request (JStr p)
                             (get_or kvs (lit ''model'') (JStr (lit ''openai''))) (JInt m)]\<rparr>
             | None \<Rightarrow>
                 \<lparr>stdout = Success
                    (JObj
                      [(lit ''text'', JStr []),
                       (lit ''model'', get_or kvs (lit ''model'') (JStr (lit ''openai''))),
                       (lit ''usage'', get_or data (lit ''usage'')
                          (JObj
                            [(lit ''prompt_tokens'', JInt (int (length (str_split p)))),
                             (lit ''completion_tokens'', JInt m),
                             (lit ''total_tokens'', JInt (int (length (str_split p)) + m))]))])
                    0 ''pollinations'',
                  exit_code = 0,
                  calls = [text_request (JStr p)
                             (get_or kvs (lit ''model'') (JStr (lit ''openai''))) (JInt m)]\<rparr>)
          \<and> (exit_code (pollinations_main dumps net (Inr (JObj kvs))) = 0 \<longrightarrow>
              path (stdout (pollinations_main dumps net (Inr (JObj kvs)))) [''success'']
                = Some (JBool True)
              \<and> path (stdout (pollinations_main dumps net (Inr (JObj kvs)))) [''data'', ''text'']
                = Some (JStr [])))
       \<and> (map_of data (lit ''choices'') = Some (JList []) \<longrightarrow>
          pollinations_main dumps net (Inr (JObj kvs)) =
            \<lparr>stdout = Failure (lit ''list index out of range'') ''pollinations'',
             exit_code = 1,
             calls = [text_request (get_or kvs (lit ''prompt'') (JStr []))
                        (get_or kvs (lit ''model'') (JStr (lit ''openai'')))
                        (get_or kvs (lit ''max_tokens'') (JInt 100))]\<rparr>)"
proof (intro conjI impI)
  let ?payload = "JObj
      [(lit ''text'', JStr []),
       (lit ''model'', get_or kvs (lit ''model'') (JStr (lit ''openai''))),
       (lit ''usage'', get_or data (lit ''usage'')
          (JObj
            [(lit ''prompt_tokens'', JInt (int (length (str_split p)))),
             (lit ''completion_tokens'', JInt m),
             (lit ''total_tokens'', JInt (int (length (str_split p)) + m))]))]"
  let ?calls = "[text_request (JStr p)
      (get_or kvs (lit ''model'') (JStr (lit ''openai''))) (JInt m)]"
  assume missing: "map_of data (lit ''choices'') = None
          \<and> get_or kvs (lit ''prompt'') (JStr []) = JStr p
          \<and> get_or kvs (lit ''max_tokens'') (JInt 100) = JInt m"
  with assms(2-4)
  have "complete_text net (JStr p) (get_or kvs (lit ''model'') (JStr (lit ''openai''))) (JInt m)
      = (Inr ?payload, ?calls)"
    by (simp add: complete_text_def reraise_request_exception_def get_or_missing getitem0_def
        split_def)
  with assms(1) missing
  have run: "pollinations_main dumps net (Inr (JObj kvs))
      = outcome_of dumps (Inr ?payload) 0 ''pollinations'' ?calls"
    by (simp add: pollinations_main_text)
  show shape: "pollinations_main dumps net (Inr (JObj kvs)) =
      (case dumps (Success ?payload 0 ''pollinations'') of
         Some e \<Rightarrow> \<lparr>stdout = Failure (str_exc e) ''pollinations'', exit_code = 1, calls = ?calls\<rparr>
       | None \<Rightarrow>
           \<lparr>stdout = Success ?payload 0 ''pollinations'', exit_code = 0, calls = ?calls\<rparr>)"
    by (simp add: run outcome_of_returned split: option.splits)
  assume ok: "exit_code (pollinations_main dumps net (Inr (JObj kvs))) = 0"
  with run have printed: "stdout (pollinations_main dumps net (Inr (JObj kvs)))
      = Success ?payload 0 ''pollinations''"
    by (auto dest: outcome_of_exit0)
  show "path (stdout (pollinations_main dumps net (Inr (JObj kvs)))) [''success'']
      = Some (JBool True)"
    unfolding printed by (simp add: Success_def)
  show "path (stdout (pollinations_main dumps net (Inr (JObj kvs)))) [''data'', ''text'']
      = Some (JStr [])"
    unfolding printed by simp
next
  assume "map_of data (lit ''choices'') = Some (JList [])"
  with assms
  show "pollinations_main dumps net (Inr (JObj kvs)) =
            \<lparr>stdout = Failure (lit ''list index out of range'') ''pollinations'',
             exit_code = 1,
             calls = [text_request (get_or kvs (lit ''prompt'') (JStr []))
                        (get_or kvs (lit ''model'') (JStr (lit ''openai'')))
                        (get_or kvs (lit ''max_tokens'') (JInt 100))]\<rparr>"
    by (simp add: pollinations_main_text complete_text_def reraise_request_exception_def
        get_or_def getitem0_def)
qed

theorem choices_missing_or_empty_witness:
  "pollinations_main default_dumps (responding (JObj [(lit ''choices'', JList [])]))
      (Inr (JObj [(lit ''prompt'', JStr (lit ''hello world''))])) =
     \<lparr>stdout = Failure (lit ''list index out of range'') ''pollinations'',
      exit_code = 1,
      calls = [text_request (JStr (lit ''hello world'')) (JStr (lit ''openai'')) (JInt 100)]\<rparr>
   \<and> pollinations_main default_dumps (responding (JObj []))
      (Inr (JObj [(lit ''prompt'', JStr (lit ''hello world''))])) =
     \<lparr>stdout = Success
        (JObj
          [(lit ''text'', JStr []),
           (lit ''model'', JStr (lit ''openai'')),
           (lit ''usage'', JObj
              [(lit ''prompt_tokens'', JInt 2),
               (lit ''completion_tokens'', JInt 100),
               (lit ''total_tokens'', JInt 102)])])
        0 ''pollinations'',
      exit_code = 0,
      calls = [text_request (JStr (lit ''hello world'')) (JStr (lit ''openai'')) (JInt 100)]\<rparr>
   \<and> pollinations_main default_dumps (responding (JObj []))
      (Inr (JObj [(lit ''prompt'', JStr (lit ''hello world'')),
                  (lit ''max_tokens'', JInt nines)])) =
     \<lparr>stdout = Failure
        (lit (''Exceeds the limit (4300 digits) for integer string conversion; ''
              @ ''use sys.set_int_max_str_digits() to increase the limit''))
        ''pollinations'',
      exit_code = 1,
      calls = [text_request (JStr (lit ''hello world'')) (JStr (lit ''openai'')) (JInt nines)]\<rparr>"
  using
    choices_missing_or_empty
      [of "[(lit ''prompt'', JStr (lit ''hello world''))]"
        "responding (JObj [(lit ''choices'', JList [])])"
        "\<lparr>raise_for_status = None, json_body = Inr (JObj [(lit ''choices'', JList [])])\<rparr>"
        "[(lit ''choices'', JList [])]" "lit ''hello world''" 100 default_dumps]
    choices_missing_or_empty
      [of "[(lit ''prompt'', JStr (lit ''hello world''))]"
        "responding (JObj [])"
        "\<lparr>raise_for_status = None, json_body = Inr (JObj [])\<rparr>"
        "[]" "lit ''hello world''" 100 default_dumps]
    choices_missing_or_empty
      [of "[(lit ''prompt'', JStr (lit ''hello world'')), (lit ''max_tokens'', JInt nines)]"
        "responding (JObj [])"
        "\<lparr>raise_for_status = None, json_body = Inr (JObj [])\<rparr>"
        "[]" "lit ''hello world''" nines default_dumps]
  by (simp add: str_split_hello_world)

end
